theory Spec2Isabelle
  imports
    Main
    "HOL-Library.Sublist"
    "HOL-Library.Char_ord"
    "HOL-Library.List_Lexorder"
    "HOL-Library.Product_Lexorder"
begin

section \<open>Python values and job variables\<close>

text \<open>
  The values a job variable or a store column can hold: \<open>None\<close>, booleans, integers and
  strings. Floats, arrays and objects are left out; no handler looks inside one.
  \<open>truthy\<close> is Python's truth test, the one behind \<^verbatim>\<open>if not container_id\<close>.
\<close>

datatype pyval = PNone | PBool bool | PInt int | PStr string

definition truthy :: "pyval \<Rightarrow> bool" where
  "truthy v = (case v of PNone \<Rightarrow> False | PBool b \<Rightarrow> b | PInt i \<Rightarrow> i \<noteq> 0 | PStr s \<Rightarrow> s \<noteq> [])"

type_synonym variables = "string \<rightharpoonup> pyval"

text \<open>\<^verbatim>\<open>variables.get(k)\<close> and \<^verbatim>\<open>variables.get(k, default)\<close>.\<close>

definition dict_get :: "variables \<Rightarrow> string \<Rightarrow> pyval" where
  "dict_get d k = (case d k of None \<Rightarrow> PNone | Some v \<Rightarrow> v)"

definition dict_get_default :: "variables \<Rightarrow> string \<Rightarrow> pyval \<Rightarrow> pyval" where
  "dict_get_default d k dflt = (case d k of None \<Rightarrow> dflt | Some v \<Rightarrow> v)"

subsection \<open>Text: \<open>str()\<close>, \<open>", ".join\<close> and \<open>strftime\<close>\<close>

definition digit :: "nat \<Rightarrow> char" where
  "digit n = ''0123456789'' ! (n mod 10)"

fun digits :: "nat \<Rightarrow> string" where
  "digits n = (if n < 10 then [digit n] else digits (n div 10) @ [digit n])"

declare digits.simps [simp del]

definition int_str :: "int \<Rightarrow> string" where
  "int_str i = (if i < 0 then CHR ''-'' # digits (nat (- i)) else digits (nat i))"

text \<open>What an f-string puts in place of \<^verbatim>\<open>{v}\<close>.\<close>

definition py_str :: "pyval \<Rightarrow> string" where
  "py_str v = (case v of
       PNone \<Rightarrow> ''None''
     | PBool b \<Rightarrow> (if b then ''True'' else ''False'')
     | PInt i \<Rightarrow> int_str i
     | PStr s \<Rightarrow> s)"

fun join :: "string \<Rightarrow> string list \<Rightarrow> string" where
  "join sep [] = []"
| "join sep [x] = x"
| "join sep (x # y # ys) = x @ sep @ join sep (y # ys)"

text \<open>
  A \<^verbatim>\<open>datetime\<close> object, without the microseconds that the program never prints.
  Python keeps \<open>year\<close> in 1..9999, \<open>month\<close> in 1..12, \<open>day\<close> in 1..31, \<open>hour\<close> below 24,
  \<open>minute\<close> and \<open>second\<close> below 60.
\<close>

record datetime =
  year :: nat
  month :: nat
  day :: nat
  hour :: nat
  minute :: nat
  second :: nat

definition pad2 :: "nat \<Rightarrow> string" where
  "pad2 n = [digit (n div 10), digit n]"

text \<open>
  \<^verbatim>\<open>strftime('%Y-%m-%d %H:%M:%S')\<close>, the only pattern the program formats with. The C
  library under CPython prints \<^verbatim>\<open>%Y\<close> as the plain decimal year, without leading zeros:
  year 999 gives three characters. The other fields are padded to two.
\<close>

definition strftime :: "datetime \<Rightarrow> string" where
  "strftime d =
     digits (year d) @ ''-'' @ pad2 (month d) @ ''-'' @ pad2 (day d) @ '' '' @
     pad2 (hour d) @ '':'' @ pad2 (minute d) @ '':'' @ pad2 (second d)"

subsection \<open>Exceptions\<close>

datatype message =
    MissingVariable string
  | InvalidTransportationId string
  | ContainerNotFound pyval

datatype py_error =
    ValueError message
  | Exception message
  | TypeError
  | AttributeError
  | IndexError

section \<open>The relational store (config/database.py)\<close>

text \<open>
  The four tables, with the columns the queries of the program name. A nullable column
  is an \<open>option\<close>. Weights are whole kilograms, as in the sample data of the repository.
\<close>

record container_row =
  c_container_id :: string
  c_operation_type :: "string option"
  c_weight :: "int option"

record storage_row =
  s_storage_id :: int
  s_container_id :: "string option"
  s_storage_status :: "string option"

record transport_row =
  t_transportation_id :: string
  t_container_id :: "string option"
  t_storage_id :: "int option"
  t_check_in :: "datetime option"
  t_check_out :: "datetime option"

text \<open>The row \<open>get_container\<close> returns: \<^verbatim>\<open>c.*\<close> and the joined storage and transport columns.\<close>

record container_data =
  cd_container_id :: string
  cd_operation_type :: "string option"
  cd_weight :: "int option"
  cd_storage_id :: "int option"
  cd_storage_status :: "string option"
  cd_transportation_id :: "string option"
  cd_check_in :: "datetime option"
  cd_check_out :: "datetime option"

text \<open>
  Every function of config/database.py that reaches the store leaves one entry in
  \<open>calls\<close>, with its arguments: the record a store stub would keep.
\<close>

datatype store_call =
    C_insert_process_instance int
  | C_update_process_instance_completion int
  | C_get_container pyval
  | C_update_storage_status pyval string
  | C_update_transport_timestamps pyval pyval pyval

text \<open>
  The state the program runs against. \<open>store_up\<close> is False when a store call raises
  (no connection pool, no connection, a failed statement). \<open>timestamp_in\<close> is the
  store's own reading of a text written into a timestamp column; it is not part of the
  program, so it is carried as it is.
\<close>

record world =
  store_up :: bool
  timestamp_in :: "string \<Rightarrow> datetime option"
  container :: "container_row list"
  storage :: "storage_row list"
  transport_mean :: "transport_row list"
  process_instance :: "int \<rightharpoonup> string"
  calls :: "store_call list"

definition log_call :: "store_call \<Rightarrow> world \<Rightarrow> world" where
  "log_call c w = w\<lparr>calls := calls w @ [c]\<rparr>"

subsection \<open>insert_process_instance, update_process_instance_completion\<close>

text \<open>
  \<open>now\<close> is the reading of the clock the function makes. A failed store call is caught,
  rolled back and answered with False.
\<close>

definition insert_process_instance ::
  "datetime \<Rightarrow> world \<Rightarrow> int \<Rightarrow> pyval \<Rightarrow> pyval \<Rightarrow> pyval \<Rightarrow> bool \<times> world" where
  "insert_process_instance now w process_instance_key operation_type container_id transportation_id =
     (let w1 = log_call (C_insert_process_instance process_instance_key) w in
      if \<not> store_up w then (False, w1)
      else
        let start_date = strftime now;
            description_parts =
              [''Started: '' @ start_date]
              @ (if truthy operation_type then [''Operation: '' @ py_str operation_type] else [])
              @ (if truthy container_id then [''Container: '' @ py_str container_id] else [])
              @ (if truthy transportation_id then [''Transport: '' @ py_str transportation_id] else []);
            description = join '', '' description_parts
        in (True, w1\<lparr>process_instance := (process_instance w)(process_instance_key \<mapsto> description)\<rparr>))"

definition update_process_instance_completion ::
  "datetime \<Rightarrow> world \<Rightarrow> int \<Rightarrow> string \<Rightarrow> bool \<times> world" where
  "update_process_instance_completion now w process_instance_key final_status =
     (let w1 = log_call (C_update_process_instance_completion process_instance_key) w in
      if \<not> store_up w then (False, w1)
      else
        case process_instance w process_instance_key of
          None \<Rightarrow> (True, w1)
        | Some existing_desc \<Rightarrow>
            let end_date = strftime now;
                updated_desc = existing_desc @ '', Ended: '' @ end_date @ '', Status: '' @ final_status
            in (True, w1\<lparr>process_instance := (process_instance w)(process_instance_key \<mapsto> updated_desc)\<rparr>))"

subsection \<open>get_container\<close>

text \<open>A LEFT JOIN keeps the left row, with NULLs, when nothing on the right matches.\<close>

definition left_join :: "'a list \<Rightarrow> 'a option list" where
  "left_join xs = (if xs = [] then [None] else map Some xs)"

definition joined_record ::
  "container_row \<Rightarrow> storage_row option \<Rightarrow> transport_row option \<Rightarrow> container_data" where
  "joined_record c s t =
     \<lparr> cd_container_id = c_container_id c,
       cd_operation_type = c_operation_type c,
       cd_weight = c_weight c,
       cd_storage_id = map_option s_storage_id s,
       cd_storage_status = Option.bind s s_storage_status,
       cd_transportation_id = map_option t_transportation_id t,
       cd_check_in = Option.bind t t_check_in,
       cd_check_out = Option.bind t t_check_out \<rparr>"

definition get_container_rows :: "world \<Rightarrow> string \<Rightarrow> container_data list" where
  "get_container_rows w cid =
     [joined_record c s t.
        c \<leftarrow> container w, c_container_id c = cid,
        s \<leftarrow> left_join (filter (\<lambda>s. s_container_id s = Some cid) (storage w)),
        t \<leftarrow> left_join (filter (\<lambda>t. t_container_id t = Some cid) (transport_mean w))]"

text \<open>
  \<open>fetchone\<close> takes the first row of the join. An argument that is not a string matches
  no row or makes the statement fail; both end in \<open>None\<close>, as does every other exception.
\<close>

definition get_container :: "world \<Rightarrow> pyval \<Rightarrow> container_data option \<times> world" where
  "get_container w container_id =
     (let w1 = log_call (C_get_container container_id) w in
      if \<not> store_up w then (None, w1)
      else
        case container_id of
          PStr cid \<Rightarrow>
            (case get_container_rows w cid of
               [] \<Rightarrow> (None, w1)
             | record # _ \<Rightarrow> (Some record, w1))
        | _ \<Rightarrow> (None, w1))"

subsection \<open>update_storage_status, update_transport_timestamps\<close>

definition update_storage_status :: "world \<Rightarrow> pyval \<Rightarrow> string \<Rightarrow> bool \<times> world" where
  "update_storage_status w container_id storage_status =
     (let w1 = log_call (C_update_storage_status container_id storage_status) w in
      if \<not> store_up w then (False, w1)
      else
        case container_id of
          PStr cid \<Rightarrow>
            (let rows_affected = length (filter (\<lambda>s. s_container_id s = Some cid) (storage w));
                 w2 = w1\<lparr>storage :=
                        map (\<lambda>s. if s_container_id s = Some cid
                                  then s\<lparr>s_storage_status := Some storage_status\<rparr> else s)
                            (storage w)\<rparr>
             in (rows_affected > 0, w2))
        | _ \<Rightarrow> (False, w1))"

definition cast_timestamp :: "world \<Rightarrow> pyval \<Rightarrow> datetime option" where
  "cast_timestamp w v = (case v of PStr s \<Rightarrow> timestamp_in w s | _ \<Rightarrow> None)"

text \<open>
  The statement sets only the columns whose argument is not \<open>None\<close>. A value the store
  cannot read as a timestamp makes the statement fail: rollback, False.
\<close>

definition update_transport_timestamps ::
  "world \<Rightarrow> pyval \<Rightarrow> pyval \<Rightarrow> pyval \<Rightarrow> bool \<times> world" where
  "update_transport_timestamps w transportation_id check_in check_out =
     (let w1 = log_call (C_update_transport_timestamps transportation_id check_in check_out) w in
      if \<not> store_up w then (False, w1)
      else if check_in = PNone \<and> check_out = PNone then (False, w1)
      else
        case transportation_id of
          PStr tid \<Rightarrow>
            if (check_in \<noteq> PNone \<and> cast_timestamp w check_in = None)
               \<or> (check_out \<noteq> PNone \<and> cast_timestamp w check_out = None)
            then (False, w1)
            else
              (let set_columns = (\<lambda>t. t\<lparr>
                     t_check_in := (if check_in \<noteq> PNone then cast_timestamp w check_in else t_check_in t),
                     t_check_out := (if check_out \<noteq> PNone then cast_timestamp w check_out else t_check_out t)\<rparr>);
                   rows_affected = length (filter (\<lambda>t. t_transportation_id t = tid) (transport_mean w));
                   w2 = w1\<lparr>transport_mean :=
                          map (\<lambda>t. if t_transportation_id t = tid then set_columns t else t)
                              (transport_mean w)\<rparr>
               in (rows_affected > 0, w2))
        | _ \<Rightarrow> (False, w1))"

section \<open>Step handlers (handlers/)\<close>

text \<open>
  A handler takes the reading \<open>now\<close> of the clock it makes, the state, the job key and the
  job's variables; it returns the raised exception or the result dictionary, with the
  state it leaves. Logging and the \<open>time.sleep\<close> stages change neither.
\<close>

definition opt_int :: "int option \<Rightarrow> pyval" where
  "opt_int x = (case x of None \<Rightarrow> PNone | Some i \<Rightarrow> PInt i)"

definition opt_str :: "string option \<Rightarrow> pyval" where
  "opt_str x = (case x of None \<Rightarrow> PNone | Some s \<Rightarrow> PStr s)"

subsection \<open>handlers/crane_operations.py\<close>

definition handle_crane_loading ::
  "datetime \<Rightarrow> world \<Rightarrow> int \<Rightarrow> variables \<Rightarrow> (py_error + variables) \<times> world" where
  "handle_crane_loading now w job_key variables =
     (let container_id = dict_get variables ''containerId'';
          transportation_id = dict_get variables ''transportationId'';
          operation_type = dict_get_default variables ''operationType'' (PStr ''loading'')
      in
      if \<not> truthy container_id \<or> container_id = PStr ''N/A''
      then (Inl (ValueError (MissingVariable ''containerId'')), w)
      else if \<not> truthy transportation_id \<or> transportation_id = PStr ''N/A''
      then (Inl (ValueError (MissingVariable ''transportationId'')), w)
      else
        let (container_data, w1) = get_container w container_id;
            timestamp = strftime now;
            operator = ''CRANE-OP-001''
        in (Inr (variables(
                  ''craneLoadingStatus'' \<mapsto> PStr ''completed'',
                  ''craneLoadingTimestamp'' \<mapsto> PStr timestamp,
                  ''craneOperator'' \<mapsto> PStr operator,
                  ''containerId'' \<mapsto> container_id,
                  ''transportationId'' \<mapsto> transportation_id,
                  ''operationType'' \<mapsto> operation_type)), w1))"

definition handle_crane_unloading ::
  "datetime \<Rightarrow> world \<Rightarrow> int \<Rightarrow> variables \<Rightarrow> (py_error + variables) \<times> world" where
  "handle_crane_unloading now w job_key variables =
     (let container_id = dict_get variables ''containerId'';
          transportation_id = dict_get variables ''transportationId'';
          operation_type = dict_get_default variables ''operationType'' (PStr ''unloading'')
      in
      if \<not> truthy container_id \<or> container_id = PStr ''N/A''
      then (Inl (ValueError (MissingVariable ''containerId'')), w)
      else if \<not> truthy transportation_id \<or> transportation_id = PStr ''N/A''
      then (Inl (ValueError (MissingVariable ''transportationId'')), w)
      else
        let (container_data, w1) = get_container w container_id;
            timestamp = strftime now;
            operator = ''CRANE-OP-002'';
            unloading_zone = ''ZONE-A1''
        in (Inr (variables(
                  ''craneUnloadingStatus'' \<mapsto> PStr ''completed'',
                  ''craneUnloadingTimestamp'' \<mapsto> PStr timestamp,
                  ''craneOperator'' \<mapsto> PStr operator,
                  ''unloadingZone'' \<mapsto> PStr unloading_zone,
                  ''containerId'' \<mapsto> container_id,
                  ''transportationId'' \<mapsto> transportation_id,
                  ''operationType'' \<mapsto> operation_type)), w1))"

subsection \<open>handlers/weighing_operations.py\<close>

text \<open>
  \<^verbatim>\<open>weight <= max_weight\<close> on a NULL weight compares \<open>None\<close> with a number: TypeError,
  logged and raised again.
\<close>

definition handle_weighing ::
  "datetime \<Rightarrow> world \<Rightarrow> int \<Rightarrow> variables \<Rightarrow> (py_error + variables) \<times> world" where
  "handle_weighing now w job_key variables =
     (let container_id = dict_get variables ''containerId'';
          transportation_id = dict_get variables ''transportationId'';
          operation_type = dict_get_default variables ''operationType'' (PStr ''unknown'')
      in
      if \<not> truthy container_id \<or> container_id = PStr ''N/A''
      then (Inl (ValueError (MissingVariable ''containerId'')), w)
      else
        case get_container w container_id of
          (None, w1) \<Rightarrow> (Inl (Exception (ContainerNotFound container_id)), w1)
        | (Some container_data, w1) \<Rightarrow>
            (case cd_weight container_data of
               None \<Rightarrow> (Inl TypeError, w1)
             | Some weight \<Rightarrow>
                 let max_weight = 30480;
                     weight_status = (if weight \<le> max_weight then ''OK'' else ''OVERWEIGHT'');
                     timestamp = strftime now;
                     scale_id = ''SCALE-001'';
                     weighing_operator = ''WEIGH-OP-001''
                 in (Inr (variables(
                           ''weighingStatus'' \<mapsto> PStr ''completed'',
                           ''weighingTimestamp'' \<mapsto> PStr timestamp,
                           ''weight'' \<mapsto> PInt weight,
                           ''weightUnit'' \<mapsto> PStr ''kg'',
                           ''weightStatus'' \<mapsto> PStr weight_status,
                           ''scaleId'' \<mapsto> PStr scale_id,
                           ''weighingOperator'' \<mapsto> PStr weighing_operator,
                           ''containerId'' \<mapsto> container_id,
                           ''transportationId'' \<mapsto> transportation_id,
                           ''operationType'' \<mapsto> operation_type)), w1)))"

subsection \<open>handlers/storage_operations.py\<close>

definition handle_storage ::
  "datetime \<Rightarrow> world \<Rightarrow> int \<Rightarrow> variables \<Rightarrow> (py_error + variables) \<times> world" where
  "handle_storage now w job_key variables =
     (let container_id = dict_get variables ''containerId'';
          operation_type = dict_get_default variables ''operationType'' (PStr ''unknown'');
          transportation_id = dict_get variables ''transportationId''
      in
      if \<not> truthy container_id \<or> container_id = PStr ''N/A''
      then (Inl (ValueError (MissingVariable ''containerId'')), w)
      else
        case get_container w container_id of
          (None, w1) \<Rightarrow> (Inl (Exception (ContainerNotFound container_id)), w1)
        | (Some container_data, w1) \<Rightarrow>
            let storage_status = ''complete'';
                (success, w2) = update_storage_status w1 container_id storage_status;
                timestamp = strftime now;
                storage_operator = ''STORAGE-OP-001''
            in (Inr (variables(
                      ''storageStatus'' \<mapsto> PStr storage_status,
                      ''storageTimestamp'' \<mapsto> PStr timestamp,
                      ''storageOperator'' \<mapsto> PStr storage_operator,
                      ''storageId'' \<mapsto> opt_int (cd_storage_id container_data),
                      ''containerId'' \<mapsto> container_id,
                      ''transportationId'' \<mapsto> transportation_id,
                      ''operationType'' \<mapsto> operation_type)), w2))"

subsection \<open>handlers/truck_operations.py\<close>

text \<open>
  \<^verbatim>\<open>transportation_id.startswith('truck')\<close>: a value that is not a string has no such
  method, and the AttributeError leaves the handler.
\<close>

definition startswith :: "pyval \<Rightarrow> string \<Rightarrow> py_error + bool" where
  "startswith v p = (case v of PStr s \<Rightarrow> Inr (prefix p s) | _ \<Rightarrow> Inl AttributeError)"

definition handle_truck_checkin ::
  "datetime \<Rightarrow> world \<Rightarrow> int \<Rightarrow> variables \<Rightarrow> (py_error + variables) \<times> world" where
  "handle_truck_checkin now w job_key variables =
     (let container_id = dict_get variables ''containerId'';
          transportation_id = dict_get variables ''transportationId'';
          operation_type = dict_get_default variables ''operationType'' (PStr ''unknown'');
          check_in = dict_get variables ''checkIn''
      in
      if \<not> truthy container_id \<or> container_id = PStr ''N/A''
      then (Inl (ValueError (MissingVariable ''containerId'')), w)
      else if \<not> truthy transportation_id \<or> transportation_id = PStr ''N/A''
      then (Inl (ValueError (MissingVariable ''transportationId'')), w)
      else
        case startswith transportation_id ''truck'' of
          Inl e \<Rightarrow> (Inl e, w)
        | Inr False \<Rightarrow> (Inl (ValueError (InvalidTransportationId (py_str transportation_id))), w)
        | Inr True \<Rightarrow>
            let check_in_timestamp = (if \<not> truthy check_in then PStr (strftime now) else check_in);
                (success, w1) = update_transport_timestamps w transportation_id check_in_timestamp PNone
            in (Inr (variables(
                      ''checkIn'' \<mapsto> check_in_timestamp,
                      ''truckCheckInStatus'' \<mapsto> PStr ''completed'',
                      ''truckCheckInOperator'' \<mapsto> PStr ''GATE-OP-001'',
                      ''containerId'' \<mapsto> container_id,
                      ''transportationId'' \<mapsto> transportation_id,
                      ''operationType'' \<mapsto> operation_type)), w1))"

text \<open>
  The duration between check-in and check-out is computed for the log only, inside a
  \<^verbatim>\<open>try\<close> whose bare \<^verbatim>\<open>except\<close> swallows every failure; it leaves no trace in the result.
\<close>

definition handle_truck_checkout ::
  "datetime \<Rightarrow> world \<Rightarrow> int \<Rightarrow> variables \<Rightarrow> (py_error + variables) \<times> world" where
  "handle_truck_checkout now w job_key variables =
     (let container_id = dict_get variables ''containerId'';
          transportation_id = dict_get variables ''transportationId'';
          operation_type = dict_get_default variables ''operationType'' (PStr ''unknown'');
          check_in = dict_get variables ''checkIn'';
          check_out = dict_get variables ''checkOut''
      in
      if \<not> truthy container_id \<or> container_id = PStr ''N/A''
      then (Inl (ValueError (MissingVariable ''containerId'')), w)
      else if \<not> truthy transportation_id \<or> transportation_id = PStr ''N/A''
      then (Inl (ValueError (MissingVariable ''transportationId'')), w)
      else
        case startswith transportation_id ''truck'' of
          Inl e \<Rightarrow> (Inl e, w)
        | Inr False \<Rightarrow> (Inl (ValueError (InvalidTransportationId (py_str transportation_id))), w)
        | Inr True \<Rightarrow>
            let check_out_timestamp = (if \<not> truthy check_out then PStr (strftime now) else check_out);
                (success, w1) = update_transport_timestamps w transportation_id PNone check_out_timestamp
            in (Inr (variables(
                      ''checkOut'' \<mapsto> check_out_timestamp,
                      ''truckCheckOutStatus'' \<mapsto> PStr ''completed'',
                      ''truckCheckOutOperator'' \<mapsto> PStr ''GATE-OP-002'',
                      ''containerId'' \<mapsto> container_id,
                      ''transportationId'' \<mapsto> transportation_id,
                      ''operationType'' \<mapsto> operation_type)), w1))"

section \<open>Task registrations (main.py)\<close>

text \<open>
  The job the engine hands to a task. Each task first records the process instance, when
  the job has a process instance key, and then runs its handler. \<open>t_start\<close> is the clock
  as \<open>insert_process_instance\<close> reads it, \<open>now\<close> as the handler does, \<open>t_end\<close> as
  \<open>update_process_instance_completion\<close> does.
\<close>

record job =
  j_key :: int
  j_process_instance_key :: int
  j_variables :: variables

definition record_start :: "datetime \<Rightarrow> world \<Rightarrow> job \<Rightarrow> pyval \<Rightarrow> world" where
  "record_start t_start w job default_operation_type =
     (let process_instance_key = j_process_instance_key job;
          container_id = dict_get (j_variables job) ''containerId'';
          transportation_id = dict_get (j_variables job) ''transportationId'';
          operation_type = dict_get_default (j_variables job) ''operationType'' default_operation_type
      in
      if process_instance_key \<noteq> 0
      then snd (insert_process_instance t_start w process_instance_key
                  operation_type container_id transportation_id)
      else w)"

definition crane_loading_task ::
  "datetime \<Rightarrow> datetime \<Rightarrow> world \<Rightarrow> job \<Rightarrow> (py_error + variables) \<times> world" where
  "crane_loading_task t_start now w job =
     handle_crane_loading now (record_start t_start w job (PStr ''loading''))
       (j_key job) (j_variables job)"

definition crane_unloading_task ::
  "datetime \<Rightarrow> datetime \<Rightarrow> world \<Rightarrow> job \<Rightarrow> (py_error + variables) \<times> world" where
  "crane_unloading_task t_start now w job =
     handle_crane_unloading now (record_start t_start w job (PStr ''unloading''))
       (j_key job) (j_variables job)"

definition weighing_task ::
  "datetime \<Rightarrow> datetime \<Rightarrow> world \<Rightarrow> job \<Rightarrow> (py_error + variables) \<times> world" where
  "weighing_task t_start now w job =
     handle_weighing now (record_start t_start w job (PStr ''unknown''))
       (j_key job) (j_variables job)"

text \<open>An exception of the handler leaves the task before the completion is recorded.\<close>

definition storage_task ::
  "datetime \<Rightarrow> datetime \<Rightarrow> datetime \<Rightarrow> world \<Rightarrow> job \<Rightarrow> (py_error + variables) \<times> world" where
  "storage_task t_start now t_end w job =
     (case handle_storage now (record_start t_start w job (PStr ''unknown''))
             (j_key job) (j_variables job) of
        (Inl e, w2) \<Rightarrow> (Inl e, w2)
      | (Inr result, w2) \<Rightarrow>
          (Inr result,
           if j_process_instance_key job \<noteq> 0
           then snd (update_process_instance_completion t_end w2
                       (j_process_instance_key job) ''completed'')
           else w2))"

definition truck_checkin_task ::
  "datetime \<Rightarrow> datetime \<Rightarrow> world \<Rightarrow> job \<Rightarrow> (py_error + variables) \<times> world" where
  "truck_checkin_task t_start now w job =
     handle_truck_checkin now (record_start t_start w job (PStr ''unknown''))
       (j_key job) (j_variables job)"

definition truck_checkout_task ::
  "datetime \<Rightarrow> datetime \<Rightarrow> world \<Rightarrow> job \<Rightarrow> (py_error + variables) \<times> world" where
  "truck_checkout_task t_start now w job =
     handle_truck_checkout now (record_start t_start w job (PStr ''unknown''))
       (j_key job) (j_variables job)"

text \<open>The task types the worker registers, and the handler each of them runs.\<close>

datatype task_type =
    Crane_loading | Crane_unloading | Weighing | Storage | Truck_checkin | Truck_checkout

definition handler ::
  "task_type \<Rightarrow> datetime \<Rightarrow> world \<Rightarrow> int \<Rightarrow> variables \<Rightarrow> (py_error + variables) \<times> world" where
  "handler k = (case k of
       Crane_loading \<Rightarrow> handle_crane_loading
     | Crane_unloading \<Rightarrow> handle_crane_unloading
     | Weighing \<Rightarrow> handle_weighing
     | Storage \<Rightarrow> handle_storage
     | Truck_checkin \<Rightarrow> handle_truck_checkin
     | Truck_checkout \<Rightarrow> handle_truck_checkout)"

section \<open>Scenario reconstruction (start_workflow.py, flow.py)\<close>

text \<open>A row of the three-table join, with the seven selected columns.\<close>

record scenario_row =
  r_container_id :: string
  r_operation_type :: "string option"
  r_weight :: "int option"
  r_transportation_id :: string
  r_check_in :: "datetime option"
  r_check_out :: "datetime option"
  r_storage_status :: "string option"

definition select_row :: "transport_row \<Rightarrow> container_row \<Rightarrow> storage_row \<Rightarrow> scenario_row" where
  "select_row t c s =
     \<lparr> r_container_id = c_container_id c,
       r_operation_type = c_operation_type c,
       r_weight = c_weight c,
       r_transportation_id = t_transportation_id t,
       r_check_in = t_check_in t,
       r_check_out = t_check_out t,
       r_storage_status = s_storage_status s \<rparr>"

text \<open>
  The query: transport_mean JOIN container JOIN storage, ORDER BY transportation_id,
  container_id. Text is compared character by character.
\<close>

definition joined_rows :: "world \<Rightarrow> scenario_row list" where
  "joined_rows w =
     [select_row t c s.
        t \<leftarrow> transport_mean w,
        c \<leftarrow> container w, t_container_id t = Some (c_container_id c),
        s \<leftarrow> storage w, t_storage_id t = Some (s_storage_id s)]"

definition fetchall :: "world \<Rightarrow> scenario_row list" where
  "fetchall w = sort_key (\<lambda>r. (r_transportation_id r, r_container_id r)) (joined_rows w)"

text \<open>
  \<^verbatim>\<open>float(row['weight'])\<close>: TypeError on NULL. The float is kept as the number it equals.
\<close>

definition py_float :: "int option \<Rightarrow> py_error + pyval" where
  "py_float x = (case x of None \<Rightarrow> Inl TypeError | Some n \<Rightarrow> Inr (PInt n))"

text \<open>
  The body of the loop over the rows: \<open>Inr None\<close> is \<^verbatim>\<open>continue\<close>, \<open>Inr (Some scenario)\<close>
  is the scenario appended. A \<^verbatim>\<open>datetime\<close> is always true, so \<^verbatim>\<open>not row['check_in']\<close>
  asks for NULL.
\<close>

definition build_scenario :: "scenario_row \<Rightarrow> py_error + variables option" where
  "build_scenario row =
     (let transportation_id = r_transportation_id row in
      if prefix ''truck'' transportation_id \<and> (r_check_in row = None \<or> r_check_out row = None)
      then Inr None
      else
        case py_float (r_weight row) of
          Inl e \<Rightarrow> Inl e
        | Inr weight \<Rightarrow>
            let scenario = [
                  ''containerId'' \<mapsto> PStr (r_container_id row),
                  ''transportationId'' \<mapsto> PStr (py_str (PStr (r_transportation_id row))),
                  ''operationType'' \<mapsto> opt_str (r_operation_type row),
                  ''weight'' \<mapsto> weight,
                  ''storageStatus'' \<mapsto> opt_str (r_storage_status row)]
            in
            if prefix ''truck'' transportation_id
            then
              (case (r_check_in row, r_check_out row) of
                 (Some check_in, Some check_out) \<Rightarrow>
                   Inr (Some (scenario(
                     ''checkIn'' \<mapsto> PStr (strftime check_in),
                     ''checkOut'' \<mapsto> PStr (strftime check_out))))
               | _ \<Rightarrow> Inl AttributeError)
            else Inr (Some scenario))"

fun scenarios_loop :: "scenario_row list \<Rightarrow> variables list \<Rightarrow> py_error + variables list" where
  "scenarios_loop [] scenarios = Inr scenarios"
| "scenarios_loop (row # rows) scenarios =
     (case build_scenario row of
        Inl e \<Rightarrow> Inl e
      | Inr None \<Rightarrow> scenarios_loop rows scenarios
      | Inr (Some scenario) \<Rightarrow> scenarios_loop rows (scenarios @ [scenario]))"

text \<open>
  flow.py, \<open>PortManagementSystem.fetch_workflow_scenarios\<close>: every exception, a failed
  connection included, is caught and answered with the empty list.
\<close>

definition PortManagementSystem_fetch_workflow_scenarios :: "world \<Rightarrow> variables list" where
  "PortManagementSystem_fetch_workflow_scenarios w =
     (if \<not> store_up w then []
      else case scenarios_loop (fetchall w) [] of
             Inl e \<Rightarrow> []
           | Inr scenarios \<Rightarrow> scenarios)"

text \<open>
  start_workflow.py, \<open>fetch_workflow_scenarios\<close>: the same query and loop, then
  \<^verbatim>\<open>return [scenarios[0]]\<close>; on an empty list the IndexError is caught like the others.
\<close>

definition fetch_workflow_scenarios :: "world \<Rightarrow> variables list" where
  "fetch_workflow_scenarios w =
     (if \<not> store_up w then []
      else case scenarios_loop (fetchall w) [] of
             Inl e \<Rightarrow> []
           | Inr scenarios \<Rightarrow>
               (case scenarios of
                  [] \<Rightarrow> []
                | first # _ \<Rightarrow> [first]))"

section \<open>Vocabulary of the properties\<close>

text \<open>The test every handler applies to a variable it requires.\<close>

definition missing :: "pyval \<Rightarrow> bool" where
  "missing v = (\<not> truthy v \<or> v = PStr ''N/A'')"

text \<open>The variables each handler tests before it does anything else.\<close>

definition required :: "task_type \<Rightarrow> string list" where
  "required k = (case k of
       Crane_loading \<Rightarrow> [''containerId'', ''transportationId'']
     | Crane_unloading \<Rightarrow> [''containerId'', ''transportationId'']
     | Weighing \<Rightarrow> [''containerId'']
     | Storage \<Rightarrow> [''containerId'']
     | Truck_checkin \<Rightarrow> [''containerId'', ''transportationId'']
     | Truck_checkout \<Rightarrow> [''containerId'', ''transportationId''])"

text \<open>The keys each handler's result adds, beside the three it passes forward.\<close>

definition result_fields :: "task_type \<Rightarrow> string list" where
  "result_fields k = (case k of
       Crane_loading \<Rightarrow> [''craneLoadingStatus'', ''craneLoadingTimestamp'', ''craneOperator'']
     | Crane_unloading \<Rightarrow>
         [''craneUnloadingStatus'', ''craneUnloadingTimestamp'', ''craneOperator'', ''unloadingZone'']
     | Weighing \<Rightarrow>
         [''weighingStatus'', ''weighingTimestamp'', ''weight'', ''weightUnit'', ''weightStatus'',
          ''scaleId'', ''weighingOperator'']
     | Storage \<Rightarrow> [''storageStatus'', ''storageTimestamp'', ''storageOperator'', ''storageId'']
     | Truck_checkin \<Rightarrow> [''checkIn'', ''truckCheckInStatus'', ''truckCheckInOperator'']
     | Truck_checkout \<Rightarrow> [''checkOut'', ''truckCheckOutStatus'', ''truckCheckOutOperator''])"

text \<open>The task the worker runs for a task type.\<close>

definition task ::
  "task_type \<Rightarrow> datetime \<Rightarrow> datetime \<Rightarrow> datetime \<Rightarrow> world \<Rightarrow> job \<Rightarrow> (py_error + variables) \<times> world" where
  "task k t_start now t_end w job = (case k of
       Crane_loading \<Rightarrow> crane_loading_task t_start now w job
     | Crane_unloading \<Rightarrow> crane_unloading_task t_start now w job
     | Weighing \<Rightarrow> weighing_task t_start now w job
     | Storage \<Rightarrow> storage_task t_start now t_end w job
     | Truck_checkin \<Rightarrow> truck_checkin_task t_start now w job
     | Truck_checkout \<Rightarrow> truck_checkout_task t_start now w job)"

text \<open>A sequence of storage-handler invocations, each with its clock, job key and variables.\<close>

fun run_storage :: "world \<Rightarrow> (datetime \<times> int \<times> variables) list \<Rightarrow> world" where
  "run_storage w [] = w"
| "run_storage w ((now, job_key, variables) # jobs) =
     run_storage (snd (handle_storage now w job_key variables)) jobs"



text \<open>
  What may happen to a storage row: it keeps its keys, and its status either stays or
  becomes \<open>complete\<close>; a complete row stays complete.
\<close>

definition never_reverts :: "storage_row \<Rightarrow> storage_row \<Rightarrow> bool" where
  "never_reverts r r' =
     (s_storage_id r' = s_storage_id r \<and> s_container_id r' = s_container_id r
      \<and> (s_storage_status r' = s_storage_status r \<or> s_storage_status r' = Some ''complete'')
      \<and> (s_storage_status r = Some ''complete'' \<longrightarrow> s_storage_status r' = Some ''complete''))"

text \<open>The row the UPDATE of \<open>update_storage_status\<close> leaves, for status \<open>complete\<close>.\<close>

definition complete_row :: "string \<Rightarrow> storage_row \<Rightarrow> storage_row" where
  "complete_row cid s =
     (if s_container_id s = Some cid then s\<lparr>s_storage_status := Some ''complete''\<rparr> else s)"

text \<open>
  A result carries its input, fields \<open>F\<close> apart: every input key is a key of the result,
  with the input's value unless the key is in \<open>F\<close>.
\<close>

definition carried :: "string set \<Rightarrow> variables \<Rightarrow> variables \<Rightarrow> bool" where
  "carried F variables m =
     (dom variables \<subseteq> dom m \<and> (\<forall>name\<in>dom variables. name \<notin> F \<longrightarrow> m name = variables name))"

text \<open>
  What a handler needs, beyond its required variables, to return a result: the weighing
  handler a container row with a weight, the storage handler a container row, both from a
  store that answers; the truck handlers a transportation id that is a string starting
  with \<open>truck\<close>.
\<close>

definition container_row_of :: "world \<Rightarrow> pyval \<Rightarrow> container_row option" where
  "container_row_of w container_id =
     (case container_id of
        PStr cid \<Rightarrow> find (\<lambda>c. c_container_id c = cid) (container w)
      | _ \<Rightarrow> None)"

definition preconditions :: "task_type \<Rightarrow> world \<Rightarrow> variables \<Rightarrow> bool" where
  "preconditions k w variables =
     (list_all (\<lambda>name. \<not> missing (dict_get variables name)) (required k)
      \<and> (case k of
            Crane_loading \<Rightarrow> True
          | Crane_unloading \<Rightarrow> True
          | Weighing \<Rightarrow>
              store_up w
              \<and> (case container_row_of w (dict_get variables ''containerId'') of
                    None \<Rightarrow> False
                  | Some c \<Rightarrow> c_weight c \<noteq> None)
          | Storage \<Rightarrow>
              store_up w \<and> container_row_of w (dict_get variables ''containerId'') \<noteq> None
          | Truck_checkin \<Rightarrow>
              startswith (dict_get variables ''transportationId'') ''truck'' = Inr True
          | Truck_checkout \<Rightarrow>
              startswith (dict_get variables ''transportationId'') ''truck'' = Inr True))"

subsection \<open>A small port, for concrete runs\<close>

definition eight_oclock :: datetime where
  "eight_oclock = \<lparr>year = 2025, month = 10, day = 8, hour = 8, minute = 0, second = 0\<rparr>"

definition ten_oclock :: datetime where
  "ten_oclock = \<lparr>year = 2025, month = 10, day = 8, hour = 10, minute = 0, second = 0\<rparr>"

definition read_timestamp :: "string \<Rightarrow> datetime option" where
  "read_timestamp s =
     (if s = ''2025-10-08 08:00:00'' then Some eight_oclock
      else if s = ''2025-10-08 10:00:00'' then Some ten_oclock
      else None)"

text \<open>
  Container C1001 (loading, 12000 kg) on truck101, checked in only; container C1002
  (unloading, 35000 kg) on ship9109, already stored.
\<close>

definition port :: world where
  "port =
     \<lparr> store_up = True,
       timestamp_in = read_timestamp,
       container =
         [\<lparr>c_container_id = ''C1001'', c_operation_type = Some ''loading'', c_weight = Some 12000\<rparr>,
          \<lparr>c_container_id = ''C1002'', c_operation_type = Some ''unloading'', c_weight = Some 35000\<rparr>],
       storage =
         [\<lparr>s_storage_id = 1, s_container_id = Some ''C1001'', s_storage_status = Some ''incomplete''\<rparr>,
          \<lparr>s_storage_id = 2, s_container_id = Some ''C1002'', s_storage_status = Some ''complete''\<rparr>],
       transport_mean =
         [\<lparr>t_transportation_id = ''truck101'', t_container_id = Some ''C1001'', t_storage_id = Some 1,
            t_check_in = Some eight_oclock, t_check_out = None\<rparr>,
          \<lparr>t_transportation_id = ''ship9109'', t_container_id = Some ''C1002'', t_storage_id = Some 2,
            t_check_in = None, t_check_out = None\<rparr>],
       process_instance = Map.empty,
       calls = [] \<rparr>"

text \<open>The same port once truck101 has checked out.\<close>

definition port_checked_out :: world where
  "port_checked_out =
     port\<lparr>transport_mean :=
       [\<lparr>t_transportation_id = ''truck101'', t_container_id = Some ''C1001'', t_storage_id = Some 1,
          t_check_in = Some eight_oclock, t_check_out = Some ten_oclock\<rparr>,
        \<lparr>t_transportation_id = ''ship9109'', t_container_id = Some ''C1002'', t_storage_id = Some 2,
          t_check_in = None, t_check_out = None\<rparr>]\<rparr>"

definition truck_job_variables :: variables where
  "truck_job_variables =
     [''containerId'' \<mapsto> PStr ''C1001'',
      ''transportationId'' \<mapsto> PStr ''truck101'',
      ''operationType'' \<mapsto> PStr ''loading'']"

definition ship_job_variables :: variables where
  "ship_job_variables =
     [''containerId'' \<mapsto> PStr ''C1002'',
      ''transportationId'' \<mapsto> PStr ''ship9109'',
      ''operationType'' \<mapsto> PStr ''unloading'']"

text \<open>A job that arrives without variables, in process instance 7.\<close>

definition bare_job :: job where
  "bare_job = \<lparr>j_key = 1, j_process_instance_key = 7, j_variables = Map.empty\<rparr>"

text \<open>A job for a container the store does not know.\<close>

definition unknown_container_variables :: variables where
  "unknown_container_variables =
     [''containerId'' \<mapsto> PStr ''C4040'', ''transportationId'' \<mapsto> PStr ''ship9109'']"

text \<open>The truck job again, now carrying a check-in time of its own.\<close>

definition returning_truck_variables :: variables where
  "returning_truck_variables = truck_job_variables(''checkIn'' \<mapsto> PStr ''2025-10-08 10:00:00'')"

text \<open>The scenarios of the ship and of the truck, once it has checked out.\<close>

definition ship_scenario :: variables where
  "ship_scenario =
     [''containerId'' \<mapsto> PStr ''C1002'',
      ''transportationId'' \<mapsto> PStr ''ship9109'',
      ''operationType'' \<mapsto> PStr ''unloading'',
      ''weight'' \<mapsto> PInt 35000,
      ''storageStatus'' \<mapsto> PStr ''complete'']"

definition truck_scenario :: variables where
  "truck_scenario =
     [''containerId'' \<mapsto> PStr ''C1001'',
      ''transportationId'' \<mapsto> PStr ''truck101'',
      ''operationType'' \<mapsto> PStr ''loading'',
      ''weight'' \<mapsto> PInt 12000,
      ''storageStatus'' \<mapsto> PStr ''incomplete'',
      ''checkIn'' \<mapsto> PStr ''2025-10-08 08:00:00'',
      ''checkOut'' \<mapsto> PStr ''2025-10-08 10:00:00'']"




section \<open>Shared facts\<close>

lemma digits_four:
  assumes "1000 \<le> n" "n \<le> 9999"
  shows "digits n = [digit (n div 1000), digit (n div 100), digit (n div 10), digit n]"
proof -
  have a: "digits n = digits (n div 10) @ [digit n]"
    using assms by (subst digits.simps) simp
  have b: "digits (n div 10) = digits (n div 100) @ [digit (n div 10)]"
    using assms by (subst digits.simps) (simp add: div_mult2_eq [symmetric])
  have c: "digits (n div 100) = digits (n div 1000) @ [digit (n div 100)]"
    using assms by (subst digits.simps) (simp add: div_mult2_eq [symmetric])
  have d: "digits (n div 1000) = [digit (n div 1000)]"
    using assms by (subst digits.simps) simp
  show ?thesis
    by (simp add: a b c d)
qed


lemma strftime_eight: "strftime eight_oclock = ''2025-10-08 08:00:00''"
  by (simp add: strftime_def eight_oclock_def pad2_def digits_four digit_def)

lemma strftime_ten: "strftime ten_oclock = ''2025-10-08 10:00:00''"
  by (simp add: strftime_def ten_oclock_def pad2_def digits_four digit_def)


lemma join_started: "prefix a (join sep ([a @ b] @ rest))"
  by (cases rest) simp_all

lemma handler_rejects:
  assumes "name \<in> set (required k)" "missing (dict_get variables name)"
  shows "\<exists>field. handler k now w job_key variables = (Inl (ValueError (MissingVariable field)), w)"
  using assms
  by (cases k)
     (auto simp: handler_def required_def missing_def Let_def
        handle_crane_loading_def handle_crane_unloading_def handle_weighing_def
        handle_storage_def handle_truck_checkin_def handle_truck_checkout_def)

lemma record_start_calls:
  "calls (record_start t_start w job dflt)
     = calls w @ (if j_process_instance_key job \<noteq> 0
                  then [C_insert_process_instance (j_process_instance_key job)] else [])"
  by (simp add: record_start_def insert_process_instance_def log_call_def Let_def)

lemma record_start_tables:
  "container (record_start t_start w job dflt) = container w"
  "storage (record_start t_start w job dflt) = storage w"
  "transport_mean (record_start t_start w job dflt) = transport_mean w"
  by (simp_all add: record_start_def insert_process_instance_def log_call_def Let_def)

lemma task_handler:
  "fst (handler k now (record_start t_start w job dflt) (j_key job) (j_variables job)) = Inl e
   \<Longrightarrow> dflt = (case k of Crane_loading \<Rightarrow> PStr ''loading''
                | Crane_unloading \<Rightarrow> PStr ''unloading'' | _ \<Rightarrow> PStr ''unknown'')
   \<Longrightarrow> task k t_start now t_end w job
     = handler k now (record_start t_start w job dflt) (j_key job) (j_variables job)"
  by (cases k)
     (auto simp: task_def handler_def crane_loading_task_def crane_unloading_task_def
        weighing_task_def storage_task_def truck_checkin_task_def truck_checkout_task_def
        split: prod.splits sum.splits)

lemma left_join_nonempty: "left_join xs \<noteq> []"
  by (simp add: left_join_def)

lemma get_container_snd: "snd (get_container w v) = log_call (C_get_container v) w"
  by (simp add: get_container_def Let_def split: pyval.splits list.splits)

lemma get_container_down: "\<not> store_up w \<Longrightarrow> fst (get_container w v) = None"
  by (simp add: get_container_def Let_def)

lemma get_container_rows_absent:
  "\<forall>c\<in>set (container w). c_container_id c \<noteq> cid \<Longrightarrow> get_container_rows w cid = []"
  by (simp add: get_container_rows_def)

lemma get_container_absent:
  "\<forall>c\<in>set (container w). c_container_id c \<noteq> cid \<Longrightarrow> fst (get_container w (PStr cid)) = None"
  by (simp add: get_container_def Let_def get_container_rows_absent)

lemma join_rows_first:
  assumes "find (\<lambda>c. c_container_id c = cid) cs = Some c" "S \<noteq> []" "T \<noteq> []"
  shows "\<exists>s t rest. [joined_record c s t. c \<leftarrow> cs, c_container_id c = cid, s \<leftarrow> S, t \<leftarrow> T]
           = joined_record c s t # rest"
  using assms
proof (induction cs)
  case Nil
  then show ?case by simp
next
  case (Cons a cs)
  show ?case
  proof (cases "c_container_id a = cid")
    case True
    with Cons.prems have "a = c" by simp
    obtain s S' where S: "S = s # S'" using Cons.prems(2) by (cases S) auto
    obtain t T' where T: "T = t # T'" using Cons.prems(3) by (cases T) auto
    show ?thesis using True \<open>a = c\<close> by (auto simp: S T)
  next
    case False
    then show ?thesis using Cons by simp
  qed
qed

lemma get_container_rows_first:
  assumes "find (\<lambda>c. c_container_id c = cid) (container w) = Some c"
  shows "\<exists>s t rest. get_container_rows w cid = joined_record c s t # rest"
  unfolding get_container_rows_def
  by (rule join_rows_first [OF assms left_join_nonempty left_join_nonempty])

lemma get_container_present:
  assumes "store_up w" "find (\<lambda>c. c_container_id c = cid) (container w) = Some c"
  shows "\<exists>s t. get_container w (PStr cid)
           = (Some (joined_record c s t), log_call (C_get_container (PStr cid)) w)"
proof -
  obtain s t rest where "get_container_rows w cid = joined_record c s t # rest"
    using get_container_rows_first [OF assms(2)] by blast
  then show ?thesis using assms(1) by (auto simp: get_container_def Let_def)
qed

lemma find_present: "\<exists>c\<in>set cs. P c \<Longrightarrow> \<exists>c. find P cs = Some c"
  by (cases "find P cs") (auto simp: find_None_iff)

lemma get_container_missing:
  "\<not> store_up w \<or> (\<exists>cid. v = PStr cid \<and> (\<forall>c\<in>set (container w). c_container_id c \<noteq> cid))
   \<Longrightarrow> get_container w v = (None, log_call (C_get_container v) w)"
  using get_container_snd [of w v] get_container_down [of w v] get_container_absent [of w]
  by (metis prod.collapse)

section \<open>Validation gate\<close>

text \<open>
  C2 says that a job rejected for a missing required field has made no store call at
  all, process-instance recording included. That does not hold: the crane-loading task
  run on a job without variables, in process instance 7, raises the ValueError for
  \<open>containerId\<close>, and by then \<open>insert_process_instance\<close> has been called and has written
  the row of process instance 7.
\<close>

theorem crane_loading_task_records_before_rejecting:
  "fst (crane_loading_task eight_oclock eight_oclock port bare_job)
     = Inl (ValueError (MissingVariable ''containerId''))
   \<and> calls (snd (crane_loading_task eight_oclock eight_oclock port bare_job))
     = [C_insert_process_instance 7]
   \<and> process_instance (snd (crane_loading_task eight_oclock eight_oclock port bare_job)) 7
     = Some ''Started: 2025-10-08 08:00:00, Operation: loading''"
  by (simp add: crane_loading_task_def record_start_def bare_job_def handle_crane_loading_def
        insert_process_instance_def log_call_def port_def Let_def dict_get_def dict_get_default_def
        truthy_def py_str_def strftime_eight)

text \<open>
  C2, amended: when a variable that the handler requires is absent, falsy or \<open>N/A\<close>,
  the handler raises a ValueError and leaves the state as it found it, so it makes no
  store call of its own. The task around it raises the same kind of error; the only
  store call it has made is \<open>insert_process_instance\<close>, once, when the job has a
  process instance key, and none otherwise. The container, storage and transport
  tables are untouched.
\<close>

theorem rejected_job_store_calls:
  assumes "name \<in> set (required k)" "missing (dict_get (j_variables job) name)"
  shows "(\<exists>field. handler k now w (j_key job) (j_variables job)
                    = (Inl (ValueError (MissingVariable field)), w))
       \<and> (\<exists>field w'. task k t_start now t_end w job = (Inl (ValueError (MissingVariable field)), w')
            \<and> calls w' = calls w @ (if j_process_instance_key job \<noteq> 0
                                       then [C_insert_process_instance (j_process_instance_key job)]
                                       else [])
            \<and> container w' = container w \<and> storage w' = storage w
            \<and> transport_mean w' = transport_mean w)"
proof
  show "\<exists>field. handler k now w (j_key job) (j_variables job)
                    = (Inl (ValueError (MissingVariable field)), w)"
    using assms by (rule handler_rejects)
next
  define dflt where "dflt = (case k of Crane_loading \<Rightarrow> PStr ''loading''
                               | Crane_unloading \<Rightarrow> PStr ''unloading'' | _ \<Rightarrow> PStr ''unknown'')"
  let ?w1 = "record_start t_start w job dflt"
  obtain field where f: "handler k now ?w1 (j_key job) (j_variables job)
      = (Inl (ValueError (MissingVariable field)), ?w1)"
    using handler_rejects [OF assms] by blast
  then have "task k t_start now t_end w job = (Inl (ValueError (MissingVariable field)), ?w1)"
    using task_handler [of k now t_start w job dflt _ t_end] dflt_def by simp
  then show "\<exists>field w'. task k t_start now t_end w job = (Inl (ValueError (MissingVariable field)), w')
            \<and> calls w' = calls w @ (if j_process_instance_key job \<noteq> 0
                                       then [C_insert_process_instance (j_process_instance_key job)]
                                       else [])
            \<and> container w' = container w \<and> storage w' = storage w
            \<and> transport_mean w' = transport_mean w"
    using record_start_calls [of t_start w job dflt] record_start_tables [of t_start w job dflt]
    by blast
qed

theorem rejected_job_store_calls_witness:
  "''containerId'' \<in> set (required Weighing)
   \<and> missing (dict_get (j_variables bare_job) ''containerId'')
   \<and> (\<exists>field. handler Weighing eight_oclock port (j_key bare_job) (j_variables bare_job)
                  = (Inl (ValueError (MissingVariable field)), port))
   \<and> (\<exists>field w'. task Weighing eight_oclock eight_oclock ten_oclock port bare_job
                  = (Inl (ValueError (MissingVariable field)), w')
          \<and> calls w' = [C_insert_process_instance 7])"
proof -
  have h1: "''containerId'' \<in> set (required Weighing)"
    by (simp add: required_def)
  have h2: "missing (dict_get (j_variables bare_job) ''containerId'')"
    by (simp add: missing_def bare_job_def dict_get_def truthy_def)
  have c: "calls port = []" "j_process_instance_key bare_job = 7"
    by (simp_all add: port_def bare_job_def)
  show ?thesis
    using h1 h2 c
      rejected_job_store_calls [OF h1 h2, of eight_oclock port eight_oclock ten_oclock]
    by auto
qed

section \<open>Process instance tracker\<close>

text \<open>
  C9: while the store answers, \<open>insert_process_instance\<close> writes under the key a
  description that begins with \<open>Started:\<close> and is the same whatever the table held
  before, so an existing description is replaced, not extended; and
  \<open>update_process_instance_completion\<close> returns True in both cases: it appends
  \<open>, Ended: <timestamp>, Status: <status>\<close> to the description found under the key, and
  changes no table when the key has no row.
\<close>

theorem process_instance_tracker:
  assumes "store_up w"
  shows "(\<exists>description. prefix ''Started: '' description
            \<and> (\<forall>w'. store_up w' \<longrightarrow>
                  insert_process_instance now w' k operation_type container_id transportation_id
                  = (True, (log_call (C_insert_process_instance k) w')
                             \<lparr>process_instance := (process_instance w')(k \<mapsto> description)\<rparr>)))
       \<and> update_process_instance_completion now w k final_status
           = (True,
              case process_instance w k of
                None \<Rightarrow> log_call (C_update_process_instance_completion k) w
              | Some existing_desc \<Rightarrow>
                  (log_call (C_update_process_instance_completion k) w)
                    \<lparr>process_instance := (process_instance w)(k \<mapsto>
                        existing_desc @ '', Ended: '' @ strftime now @ '', Status: '' @ final_status)\<rparr>)"
proof
  define description where "description = join '', ''
     ([''Started: '' @ strftime now]
      @ ((if truthy operation_type then [''Operation: '' @ py_str operation_type] else [])
      @ (if truthy container_id then [''Container: '' @ py_str container_id] else [])
      @ (if truthy transportation_id then [''Transport: '' @ py_str transportation_id] else [])))"
  have "prefix ''Started: '' description"
    unfolding description_def by (rule join_started)
  moreover have "\<forall>w'. store_up w' \<longrightarrow>
      insert_process_instance now w' k operation_type container_id transportation_id
      = (True, (log_call (C_insert_process_instance k) w')
                 \<lparr>process_instance := (process_instance w')(k \<mapsto> description)\<rparr>)"
    unfolding description_def insert_process_instance_def Let_def by simp
  ultimately show "\<exists>description. prefix ''Started: '' description
            \<and> (\<forall>w'. store_up w' \<longrightarrow>
                  insert_process_instance now w' k operation_type container_id transportation_id
                  = (True, (log_call (C_insert_process_instance k) w')
                             \<lparr>process_instance := (process_instance w')(k \<mapsto> description)\<rparr>))"
    by blast
next
  show "update_process_instance_completion now w k final_status
           = (True,
              case process_instance w k of
                None \<Rightarrow> log_call (C_update_process_instance_completion k) w
              | Some existing_desc \<Rightarrow>
                  (log_call (C_update_process_instance_completion k) w)
                    \<lparr>process_instance := (process_instance w)(k \<mapsto>
                        existing_desc @ '', Ended: '' @ strftime now @ '', Status: '' @ final_status)\<rparr>)"
    using assms
    by (simp add: update_process_instance_completion_def Let_def split: option.splits)
qed

theorem process_instance_tracker_witness:
  "store_up port
   \<and> update_process_instance_completion ten_oclock port 7 ''completed''
       = (True, log_call (C_update_process_instance_completion 7) port)
   \<and> process_instance
        (snd (update_process_instance_completion ten_oclock
               (snd (insert_process_instance eight_oclock port 7
                       (PStr ''loading'') (PStr ''C1001'') PNone)) 7 ''completed'')) 7
       = Some ''Started: 2025-10-08 08:00:00, Operation: loading, Container: C1001, Ended: 2025-10-08 10:00:00, Status: completed''"
proof -
  have up: "store_up port"
    by (simp add: port_def)
  have none: "process_instance port 7 = None"
    by (simp add: port_def)
  let ?started = "snd (insert_process_instance eight_oclock port 7
                         (PStr ''loading'') (PStr ''C1001'') PNone)"
  have up': "store_up ?started"
    by (simp add: insert_process_instance_def log_call_def Let_def port_def)
  have some: "process_instance ?started 7
      = Some ''Started: 2025-10-08 08:00:00, Operation: loading, Container: C1001''"
    by (simp add: insert_process_instance_def log_call_def Let_def port_def truthy_def
          py_str_def strftime_eight)
  show ?thesis
    using up none some
      process_instance_tracker [OF up, of ten_oclock 7 PNone PNone PNone "''completed''"]
      process_instance_tracker [OF up', of ten_oclock 7 PNone PNone PNone "''completed''"]
    by (simp add: strftime_ten log_call_def)
qed

section \<open>Storage\<close>

lemma never_reverts_refl: "never_reverts r r"
  by (simp add: never_reverts_def)

lemma never_reverts_trans: "never_reverts a b \<Longrightarrow> never_reverts b c \<Longrightarrow> never_reverts a c"
  by (auto simp: never_reverts_def)

lemma never_reverts_complete_row: "never_reverts s (complete_row cid s)"
  by (simp add: never_reverts_def complete_row_def)

lemma update_storage_status_storage:
  "storage (snd (update_storage_status w v ''complete'')) = storage w
   \<or> (\<exists>cid. storage (snd (update_storage_status w v ''complete'')) = map (complete_row cid) (storage w))"
  by (cases v) (auto simp: update_storage_status_def Let_def log_call_def complete_row_def)

lemma update_storage_status_up:
  "store_up w \<Longrightarrow> update_storage_status w (PStr cid) st
     = (\<exists>s\<in>set (storage w). s_container_id s = Some cid,
        w\<lparr>calls := calls w @ [C_update_storage_status (PStr cid) st],
          storage := map (\<lambda>s. if s_container_id s = Some cid
                               then s\<lparr>s_storage_status := Some st\<rparr> else s) (storage w)\<rparr>)"
  by (auto simp: update_storage_status_def Let_def log_call_def filter_empty_conv)

lemma handle_storage_storage:
  "storage (snd (handle_storage now w job_key variables)) = storage w
   \<or> (\<exists>cid. storage (snd (handle_storage now w job_key variables)) = map (complete_row cid) (storage w))"
proof -
  let ?v = "dict_get variables ''containerId''"
  have g: "storage (snd (get_container w ?v)) = storage w"
    by (simp add: get_container_snd log_call_def)
  show ?thesis
  proof (cases "fst (get_container w ?v)")
    case None
    then show ?thesis
      using g by (auto simp: handle_storage_def Let_def split: prod.splits)
  next
    case (Some cd)
    then show ?thesis
      using g update_storage_status_storage [of "snd (get_container w ?v)" ?v]
      by (auto simp: handle_storage_def Let_def split: prod.splits)
  qed
qed

lemma handle_storage_never_reverts:
  "list_all2 never_reverts (storage w) (storage (snd (handle_storage now w job_key variables)))"
  using handle_storage_storage [of now w job_key variables]
  by (auto simp: list_all2_conv_all_nth never_reverts_refl never_reverts_complete_row)

lemma run_storage_never_reverts:
  "list_all2 never_reverts (storage w) (storage (run_storage w jobs))"
proof (induction jobs arbitrary: w)
  case Nil
  then show ?case by (simp add: list_all2_conv_all_nth never_reverts_refl)
next
  case (Cons j jobs)
  obtain now job_key variables where j: "j = (now, job_key, variables)"
    by (cases j) auto
  have "list_all2 never_reverts (storage w) (storage (snd (handle_storage now w job_key variables)))"
    by (rule handle_storage_never_reverts)
  moreover have "list_all2 never_reverts (storage (snd (handle_storage now w job_key variables)))
      (storage (run_storage (snd (handle_storage now w job_key variables)) jobs))"
    by (rule Cons.IH)
  ultimately have "list_all2 never_reverts (storage w)
      (storage (run_storage (snd (handle_storage now w job_key variables)) jobs))"
    by (rule list_all2_trans [rotated, where ?P1.0 = never_reverts and ?P2.0 = never_reverts])
       (rule never_reverts_trans)
  then show ?case
    unfolding j by simp
qed

lemma handle_storage_present:
  assumes "store_up w"
    and "variables ''containerId'' = Some (PStr cid)" and "cid \<noteq> []" and "cid \<noteq> ''N/A''"
    and "find (\<lambda>c. c_container_id c = cid) (container w) = Some c"
  shows "\<exists>result. handle_storage now w job_key variables
           = (Inr result,
              w\<lparr>calls := calls w @ [C_get_container (PStr cid),
                                     C_update_storage_status (PStr cid) ''complete''],
                storage := map (complete_row cid) (storage w)\<rparr>)
           \<and> result ''storageStatus'' = Some (PStr ''complete'')"
proof -
  obtain s t where g: "get_container w (PStr cid)
       = (Some (joined_record c s t), log_call (C_get_container (PStr cid)) w)"
    using get_container_present [OF assms(1) assms(5)] by blast
  have cr: "(\<lambda>s. if s_container_id s = Some cid
                 then s\<lparr>s_storage_status := Some ''complete''\<rparr> else s) = complete_row cid"
    by (rule ext) (simp add: complete_row_def)
  have u: "snd (update_storage_status (log_call (C_get_container (PStr cid)) w) (PStr cid) ''complete'')
      = w\<lparr>calls := calls w @ [C_get_container (PStr cid),
                                  C_update_storage_status (PStr cid) ''complete''],
           storage := map (complete_row cid) (storage w)\<rparr>"
    using assms(1) by (simp add: update_storage_status_def Let_def log_call_def cr)
  show ?thesis
    using assms(2,3,4) g u
    by (auto simp: handle_storage_def Let_def dict_get_def truthy_def split: prod.splits)
qed

lemma complete_row_idem: "map (complete_row cid) (map (complete_row cid) rows) = map (complete_row cid) rows"
  by (simp add: complete_row_def)

lemma complete_row_noop:
  "\<forall>s\<in>set rows. s_container_id s = Some cid \<longrightarrow> s_storage_status s = Some ''complete''
   \<Longrightarrow> map (complete_row cid) rows = rows"
  by (induction rows) (auto simp: complete_row_def)

text \<open>
  C3: whatever storage-handler invocations run, one after the other, every storage row
  keeps its keys and a row that was \<open>complete\<close> is still \<open>complete\<close> at the end; a status
  only ever changes to \<open>complete\<close>. When the store answers, the job passes validation and
  the container exists, one invocation sets every storage row of the container to \<open>complete\<close>, whatever it was, and
  a second one leaves the table as the first left it.
\<close>

theorem storage_complete_is_terminal:
  "list_all2 never_reverts (storage w) (storage (run_storage w jobs))
   \<and> (store_up w \<and> variables ''containerId'' = Some (PStr cid) \<and> cid \<noteq> [] \<and> cid \<noteq> ''N/A''
        \<and> (\<exists>c\<in>set (container w). c_container_id c = cid)
       \<longrightarrow> storage (run_storage w [(now, job_key, variables)])
             = map (complete_row cid) (storage w)
         \<and> storage (run_storage w [(now, job_key, variables), (now', job_key', variables)])
             = map (complete_row cid) (storage w))"
proof (intro conjI impI)
  show "list_all2 never_reverts (storage w) (storage (run_storage w jobs))"
    by (rule run_storage_never_reverts)
next
  assume a: "store_up w \<and> variables ''containerId'' = Some (PStr cid) \<and> cid \<noteq> [] \<and> cid \<noteq> ''N/A''
        \<and> (\<exists>c\<in>set (container w). c_container_id c = cid)"
  then obtain c where c: "find (\<lambda>c. c_container_id c = cid) (container w) = Some c"
    using find_present [of "container w" "\<lambda>c. c_container_id c = cid"] by blast
  let ?w1 = "w\<lparr>calls := calls w @ [C_get_container (PStr cid),
                                     C_update_storage_status (PStr cid) ''complete''],
                storage := map (complete_row cid) (storage w)\<rparr>"
  have one: "snd (handle_storage now w job_key variables) = ?w1"
    using handle_storage_present [of w variables cid c now job_key] a c by auto
  have c1: "find (\<lambda>c. c_container_id c = cid) (container ?w1) = Some c"
    using c by simp
  have up1: "store_up ?w1"
    using a by simp
  have two: "storage (snd (handle_storage now' ?w1 job_key' variables))
      = map (complete_row cid) (storage ?w1)"
    using handle_storage_present [OF up1 _ _ _ c1, of variables now' job_key'] a by auto
  show "storage (run_storage w [(now, job_key, variables)]) = map (complete_row cid) (storage w)"
    using one by simp
  show "storage (run_storage w [(now, job_key, variables), (now', job_key', variables)])
      = map (complete_row cid) (storage w)"
    using one two by (simp add: complete_row_def)
qed

theorem storage_complete_is_terminal_witness:
  "store_up port \<and> truck_job_variables ''containerId'' = Some (PStr ''C1001'')
   \<and> (\<exists>c\<in>set (container port). c_container_id c = ''C1001'')
   \<and> list_all2 never_reverts (storage port)
        (storage (run_storage port [(eight_oclock, 1, ship_job_variables),
                                    (ten_oclock, 2, truck_job_variables)]))
   \<and> map s_storage_status (storage port) = [Some ''incomplete'', Some ''complete'']
   \<and> map s_storage_status
        (storage (run_storage port [(eight_oclock, 1, truck_job_variables),
                                    (ten_oclock, 2, truck_job_variables)]))
       = [Some ''complete'', Some ''complete'']"
proof -
  have h: "store_up port \<and> truck_job_variables ''containerId'' = Some (PStr ''C1001'')
      \<and> ''C1001'' \<noteq> [] \<and> ''C1001'' \<noteq> ''N/A''
      \<and> (\<exists>c\<in>set (container port). c_container_id c = ''C1001'')"
    by (simp add: port_def truck_job_variables_def)
  have s: "map s_storage_status (map (complete_row ''C1001'') (storage port))
      = [Some ''complete'', Some ''complete'']"
    by (simp add: port_def complete_row_def)
  have s0: "map s_storage_status (storage port) = [Some ''incomplete'', Some ''complete'']"
    by (simp add: port_def)
  show ?thesis
    using h s s0
      storage_complete_is_terminal [of port "[(eight_oclock, 1, ship_job_variables),
                                    (ten_oclock, 2, truck_job_variables)]"
         truck_job_variables "''C1001''" eight_oclock 1 ten_oclock 2]
    by simp
qed

section \<open>Weighing\<close>

text \<open>
  C4: for a job that names a container of the store, whose weight is \<open>weight\<close>, the
  weighing handler returns a result with \<open>weightStatus\<close> \<open>OK\<close> when \<open>weight \<le> 30480\<close> and
  \<open>OVERWEIGHT\<close> otherwise, and the state it leaves differs from the one it found only by
  the record of its one call of \<open>get_container\<close>: no table is written.
\<close>

theorem weighing_reads_and_derives:
  assumes "store_up w"
    and "variables ''containerId'' = Some (PStr cid)" and "cid \<noteq> []" and "cid \<noteq> ''N/A''"
    and "find (\<lambda>c. c_container_id c = cid) (container w) = Some c"
    and "c_weight c = Some weight"
  shows "\<exists>result. handle_weighing now w job_key variables
             = (Inr result, log_call (C_get_container (PStr cid)) w)
           \<and> result ''weightStatus''
             = Some (PStr (if weight \<le> 30480 then ''OK'' else ''OVERWEIGHT''))
           \<and> result ''weight'' = Some (PInt weight)"
proof -
  obtain s t where g: "get_container w (PStr cid)
       = (Some (joined_record c s t), log_call (C_get_container (PStr cid)) w)"
    using get_container_present [OF assms(1) assms(5)] by blast
  have w: "cd_weight (joined_record c s t) = Some weight"
    using assms(6) by (simp add: joined_record_def)
  show ?thesis
    using assms(2,3,4) g w
    by (simp add: handle_weighing_def Let_def dict_get_def truthy_def)
qed

theorem weighing_reads_and_derives_witness:
  "store_up port \<and> ship_job_variables ''containerId'' = Some (PStr ''C1002'')
   \<and> (\<exists>result. handle_weighing eight_oclock port 1 ship_job_variables
          = (Inr result, log_call (C_get_container (PStr ''C1002'')) port)
        \<and> result ''weightStatus'' = Some (PStr ''OVERWEIGHT'')
        \<and> result ''weight'' = Some (PInt 35000))"
proof -
  have h1: "store_up port" by (simp add: port_def)
  have h2: "ship_job_variables ''containerId'' = Some (PStr ''C1002'')"
    by (simp add: ship_job_variables_def)
  have h3: "find (\<lambda>c. c_container_id c = ''C1002'') (container port)
      = Some \<lparr>c_container_id = ''C1002'', c_operation_type = Some ''unloading'', c_weight = Some 35000\<rparr>"
    by (simp add: port_def)
  have h4: "''C1002'' \<noteq> []" "''C1002'' \<noteq> ''N/A''"
    by simp_all
  have h5: "c_weight \<lparr>c_container_id = ''C1002'', c_operation_type = Some ''unloading'',
       c_weight = Some 35000\<rparr> = Some 35000"
    by simp
  show ?thesis
    using h1 h2 h3
      weighing_reads_and_derives [of port ship_job_variables "''C1002''"
        "\<lparr>c_container_id = ''C1002'', c_operation_type = Some ''unloading'', c_weight = Some 35000\<rparr>"
        35000 eight_oclock 1]
    by simp
qed

section \<open>A container the store does not return\<close>

text \<open>
  C6: when a job passes validation and no row of the container table has its container
  id, the weighing and the storage handler raise the not-found exception, having only
  called \<open>get_container\<close>; the crane-loading and crane-unloading handlers (which also
  require the transportation id) return their result, the input variables overlaid with
  their own fields.
\<close>

theorem absent_container_fatal_or_warning:
  assumes "variables ''containerId'' = Some (PStr cid)" and "cid \<noteq> []" and "cid \<noteq> ''N/A''"
    and "\<forall>c\<in>set (container w). c_container_id c \<noteq> cid"
  shows "handle_weighing now w job_key variables
           = (Inl (Exception (ContainerNotFound (PStr cid))), log_call (C_get_container (PStr cid)) w)
       \<and> handle_storage now w job_key variables
           = (Inl (Exception (ContainerNotFound (PStr cid))), log_call (C_get_container (PStr cid)) w)
       \<and> (\<not> missing (dict_get variables ''transportationId'') \<longrightarrow>
            handle_crane_loading now w job_key variables
              = (Inr (variables(
                   ''craneLoadingStatus'' \<mapsto> PStr ''completed'',
                   ''craneLoadingTimestamp'' \<mapsto> PStr (strftime now),
                   ''craneOperator'' \<mapsto> PStr ''CRANE-OP-001'',
                   ''containerId'' \<mapsto> PStr cid,
                   ''transportationId'' \<mapsto> dict_get variables ''transportationId'',
                   ''operationType'' \<mapsto> dict_get_default variables ''operationType'' (PStr ''loading''))),
                 log_call (C_get_container (PStr cid)) w)
          \<and> handle_crane_unloading now w job_key variables
              = (Inr (variables(
                   ''craneUnloadingStatus'' \<mapsto> PStr ''completed'',
                   ''craneUnloadingTimestamp'' \<mapsto> PStr (strftime now),
                   ''craneOperator'' \<mapsto> PStr ''CRANE-OP-002'',
                   ''unloadingZone'' \<mapsto> PStr ''ZONE-A1'',
                   ''containerId'' \<mapsto> PStr cid,
                   ''transportationId'' \<mapsto> dict_get variables ''transportationId'',
                   ''operationType'' \<mapsto> dict_get_default variables ''operationType'' (PStr ''unloading''))),
                 log_call (C_get_container (PStr cid)) w))"
proof -
  have g: "get_container w (PStr cid) = (None, log_call (C_get_container (PStr cid)) w)"
    using assms(4) by (intro get_container_missing) simp
  have v: "dict_get variables ''containerId'' = PStr cid" "truthy (PStr cid)"
    using assms(1,2) by (simp_all add: dict_get_def truthy_def)
  show ?thesis
    using g v assms(3)
    by (simp add: handle_weighing_def handle_storage_def handle_crane_loading_def
          handle_crane_unloading_def missing_def Let_def)
qed

theorem absent_container_fatal_or_warning_witness:
  "unknown_container_variables ''containerId'' = Some (PStr ''C4040'')
   \<and> list_all (\<lambda>c. c_container_id c \<noteq> ''C4040'') (container port)
   \<and> \<not> missing (dict_get unknown_container_variables ''transportationId'')
   \<and> fst (handle_weighing eight_oclock port 1 unknown_container_variables)
       = Inl (Exception (ContainerNotFound (PStr ''C4040'')))
   \<and> fst (handle_storage eight_oclock port 1 unknown_container_variables)
       = Inl (Exception (ContainerNotFound (PStr ''C4040'')))
   \<and> fst (handle_crane_unloading eight_oclock port 1 unknown_container_variables)
       = Inr [''craneUnloadingStatus'' \<mapsto> PStr ''completed'',
              ''craneUnloadingTimestamp'' \<mapsto> PStr ''2025-10-08 08:00:00'',
              ''craneOperator'' \<mapsto> PStr ''CRANE-OP-002'',
              ''unloadingZone'' \<mapsto> PStr ''ZONE-A1'',
              ''containerId'' \<mapsto> PStr ''C4040'',
              ''transportationId'' \<mapsto> PStr ''ship9109'',
              ''operationType'' \<mapsto> PStr ''unloading'']"
proof -
  have h1: "unknown_container_variables ''containerId'' = Some (PStr ''C4040'')"
    by (simp add: unknown_container_variables_def)
  have h4: "\<forall>c\<in>set (container port). c_container_id c \<noteq> ''C4040''"
    by (simp add: port_def)
  have h5: "\<not> missing (dict_get unknown_container_variables ''transportationId'')"
    by (simp add: missing_def dict_get_def unknown_container_variables_def truthy_def)
  have d: "dict_get unknown_container_variables ''transportationId'' = PStr ''ship9109''"
      "dict_get_default unknown_container_variables ''operationType'' (PStr ''unloading'')
        = PStr ''unloading''"
    by (simp_all add: dict_get_def dict_get_default_def unknown_container_variables_def)
  have m: "unknown_container_variables(
              ''craneUnloadingStatus'' \<mapsto> PStr ''completed'',
              ''craneUnloadingTimestamp'' \<mapsto> PStr ''2025-10-08 08:00:00'',
              ''craneOperator'' \<mapsto> PStr ''CRANE-OP-002'',
              ''unloadingZone'' \<mapsto> PStr ''ZONE-A1'',
              ''containerId'' \<mapsto> PStr ''C4040'',
              ''transportationId'' \<mapsto> PStr ''ship9109'',
              ''operationType'' \<mapsto> PStr ''unloading'')
         = [''craneUnloadingStatus'' \<mapsto> PStr ''completed'',
              ''craneUnloadingTimestamp'' \<mapsto> PStr ''2025-10-08 08:00:00'',
              ''craneOperator'' \<mapsto> PStr ''CRANE-OP-002'',
              ''unloadingZone'' \<mapsto> PStr ''ZONE-A1'',
              ''containerId'' \<mapsto> PStr ''C4040'',
              ''transportationId'' \<mapsto> PStr ''ship9109'',
              ''operationType'' \<mapsto> PStr ''unloading'']"
    by (rule ext) (simp add: unknown_container_variables_def)
  show ?thesis
    using h1 h4 h5 d m
      absent_container_fatal_or_warning [of unknown_container_variables "''C4040''" port
        eight_oclock 1]
    by (simp add: strftime_eight list_all_iff)
qed

text \<open>
  C10: when the store fails, \<open>get_container\<close> returns \<open>None\<close>, as it does for a container
  that has no row; so with the store down a job that passes validation is aborted by
  the weighing and the storage handler with the same not-found exception, while the
  crane handlers return a result.
\<close>

theorem store_failure_reads_as_absence:
  assumes "\<not> store_up w" and "\<not> missing (dict_get variables ''containerId'')"
  shows "get_container w v = (None, log_call (C_get_container v) w)
       \<and> ((\<forall>c\<in>set (container w'). c_container_id c \<noteq> cid)
            \<longrightarrow> get_container w' (PStr cid) = (None, log_call (C_get_container (PStr cid)) w'))
       \<and> handle_weighing now w job_key variables
           = (Inl (Exception (ContainerNotFound (dict_get variables ''containerId''))),
              log_call (C_get_container (dict_get variables ''containerId'')) w)
       \<and> handle_storage now w job_key variables
           = (Inl (Exception (ContainerNotFound (dict_get variables ''containerId''))),
              log_call (C_get_container (dict_get variables ''containerId'')) w)
       \<and> (\<not> missing (dict_get variables ''transportationId'') \<longrightarrow>
            (\<exists>result. handle_crane_loading now w job_key variables
                = (Inr result, log_call (C_get_container (dict_get variables ''containerId'')) w))
          \<and> (\<exists>result. handle_crane_unloading now w job_key variables
                = (Inr result, log_call (C_get_container (dict_get variables ''containerId'')) w)))"
proof -
  have g: "\<And>v. get_container w v = (None, log_call (C_get_container v) w)"
    using assms(1) by (intro get_container_missing) simp
  have a: "(\<forall>c\<in>set (container w'). c_container_id c \<noteq> cid)
            \<longrightarrow> get_container w' (PStr cid) = (None, log_call (C_get_container (PStr cid)) w')"
    by (auto intro: get_container_missing)
  show ?thesis
    using g a assms(2)
    by (simp add: handle_weighing_def handle_storage_def handle_crane_loading_def
          handle_crane_unloading_def missing_def Let_def)
qed

theorem store_failure_reads_as_absence_witness:
  "\<not> store_up (port\<lparr>store_up := False\<rparr>)
   \<and> \<not> missing (dict_get truck_job_variables ''containerId'')
   \<and> \<not> missing (dict_get truck_job_variables ''transportationId'')
   \<and> list_all (\<lambda>c. c_container_id c \<noteq> ''C4040'') (container port)
   \<and> fst (get_container (port\<lparr>store_up := False\<rparr>) (PStr ''C1001'')) = None
   \<and> fst (get_container port (PStr ''C4040'')) = None
   \<and> fst (handle_weighing eight_oclock (port\<lparr>store_up := False\<rparr>) 1 truck_job_variables)
       = Inl (Exception (ContainerNotFound (PStr ''C1001'')))
   \<and> fst (handle_storage eight_oclock (port\<lparr>store_up := False\<rparr>) 1 truck_job_variables)
       = Inl (Exception (ContainerNotFound (PStr ''C1001'')))
   \<and> (\<exists>result. fst (handle_crane_loading eight_oclock (port\<lparr>store_up := False\<rparr>) 1
                       truck_job_variables) = Inr result)"
proof -
  have h1: "\<not> store_up (port\<lparr>store_up := False\<rparr>)"
    by simp
  have h2: "\<not> missing (dict_get truck_job_variables ''containerId'')"
    by (simp add: missing_def dict_get_def truck_job_variables_def truthy_def)
  have h3: "\<not> missing (dict_get truck_job_variables ''transportationId'')"
    by (simp add: missing_def dict_get_def truck_job_variables_def truthy_def)
  have h4: "\<forall>c\<in>set (container port). c_container_id c \<noteq> ''C4040''"
    by (simp add: port_def)
  have d: "dict_get truck_job_variables ''containerId'' = PStr ''C1001''"
    by (simp add: dict_get_def truck_job_variables_def)
  show ?thesis
    using h1 h2 h3 h4 d
      store_failure_reads_as_absence [OF h1 h2, of "PStr ''C1001''" port "''C4040''" eight_oclock 1]
    by (auto simp: list_all_iff)
qed

section \<open>Truck check-in\<close>

lemma update_check_in:
  assumes "v \<noteq> PNone"
  shows "update_transport_timestamps w (PStr tid) v PNone
     = (store_up w \<and> cast_timestamp w v \<noteq> None
          \<and> (\<exists>t\<in>set (transport_mean w). t_transportation_id t = tid),
        w\<lparr>calls := calls w @ [C_update_transport_timestamps (PStr tid) v PNone],
          transport_mean :=
            map (\<lambda>t. if store_up w \<and> cast_timestamp w v \<noteq> None \<and> t_transportation_id t = tid
                      then t\<lparr>t_check_in := cast_timestamp w v\<rparr> else t)
                (transport_mean w)\<rparr>)"
  using assms
  by (auto simp: update_transport_timestamps_def Let_def log_call_def filter_empty_conv)

text \<open>
  C7: for a job that passes validation, the check-in handler takes the job's \<open>checkIn\<close>
  when it carries one and the formatted clock otherwise; it returns that value as
  \<open>checkIn\<close> and passes exactly that value to \<open>update_transport_timestamps\<close>, with no
  check-out argument. In the transport table only \<open>check_in\<close> changes, and only in the
  rows of the truck, to what the store reads from that value; \<open>check_out\<close> and every
  other column and table stay as they were.
\<close>

theorem truck_checkin_partial_update:
  assumes "\<not> missing (dict_get variables ''containerId'')"
    and "variables ''transportationId'' = Some (PStr tid)" and "tid \<noteq> ''N/A''"
    and "prefix ''truck'' tid"
    and "check_in_timestamp = (if truthy (dict_get variables ''checkIn'')
                               then dict_get variables ''checkIn'' else PStr (strftime now))"
  shows "\<exists>result w'. handle_truck_checkin now w job_key variables = (Inr result, w')
       \<and> result ''checkIn'' = Some check_in_timestamp
       \<and> calls w' = calls w @ [C_update_transport_timestamps (PStr tid) check_in_timestamp PNone]
       \<and> map t_check_in (transport_mean w')
           = map (\<lambda>t. if store_up w \<and> cast_timestamp w check_in_timestamp \<noteq> None
                          \<and> t_transportation_id t = tid
                       then cast_timestamp w check_in_timestamp else t_check_in t)
                 (transport_mean w)
       \<and> map t_check_out (transport_mean w') = map t_check_out (transport_mean w)
       \<and> map t_transportation_id (transport_mean w') = map t_transportation_id (transport_mean w)
       \<and> map t_container_id (transport_mean w') = map t_container_id (transport_mean w)
       \<and> map t_storage_id (transport_mean w') = map t_storage_id (transport_mean w)
       \<and> container w' = container w \<and> storage w' = storage w
       \<and> process_instance w' = process_instance w"
proof -
  have t: "dict_get variables ''transportationId'' = PStr tid" "truthy (PStr tid)"
      "startswith (PStr tid) ''truck'' = Inr True"
    using assms(2,4) by (auto simp: dict_get_def truthy_def startswith_def)
  have v: "check_in_timestamp \<noteq> PNone"
    using assms(5) by (auto simp: truthy_def)
  have c: "(if \<not> truthy (dict_get variables ''checkIn'') then PStr (strftime now)
            else dict_get variables ''checkIn'') = check_in_timestamp"
    using assms(5) by simp
  show ?thesis
    using assms(1,3) t
    by (auto simp: handle_truck_checkin_def Let_def missing_def c update_check_in [OF v] comp_def)
qed

theorem truck_checkin_partial_update_witness:
  "\<not> missing (dict_get returning_truck_variables ''containerId'')
   \<and> returning_truck_variables ''transportationId'' = Some (PStr ''truck101'')
   \<and> prefix ''truck'' ''truck101''
   \<and> (\<exists>result w'. handle_truck_checkin eight_oclock port_checked_out 1 returning_truck_variables
                      = (Inr result, w')
         \<and> result ''checkIn'' = Some (PStr ''2025-10-08 10:00:00'')
         \<and> calls w' = [C_update_transport_timestamps (PStr ''truck101'')
                          (PStr ''2025-10-08 10:00:00'') PNone]
         \<and> map t_check_in (transport_mean w') = [Some ten_oclock, None]
         \<and> map t_check_out (transport_mean w') = [Some ten_oclock, None])
   \<and> (\<exists>result w'. handle_truck_checkin eight_oclock port_checked_out 1 truck_job_variables
                      = (Inr result, w')
         \<and> result ''checkIn'' = Some (PStr ''2025-10-08 08:00:00'')
         \<and> map t_check_out (transport_mean w') = [Some ten_oclock, None])"
proof -
  have h1: "\<not> missing (dict_get returning_truck_variables ''containerId'')"
    by (simp add: missing_def dict_get_def returning_truck_variables_def truck_job_variables_def
          truthy_def)
  have h2: "returning_truck_variables ''transportationId'' = Some (PStr ''truck101'')"
    by (simp add: returning_truck_variables_def truck_job_variables_def)
  have h3: "''truck101'' \<noteq> ''N/A''" "prefix ''truck'' ''truck101''"
    by simp_all
  have h4: "PStr ''2025-10-08 10:00:00''
      = (if truthy (dict_get returning_truck_variables ''checkIn'')
         then dict_get returning_truck_variables ''checkIn'' else PStr (strftime eight_oclock))"
    by (simp add: dict_get_def returning_truck_variables_def truthy_def)
  have g1: "\<not> missing (dict_get truck_job_variables ''containerId'')"
    by (simp add: missing_def dict_get_def truck_job_variables_def truthy_def)
  have g2: "truck_job_variables ''transportationId'' = Some (PStr ''truck101'')"
    by (simp add: truck_job_variables_def)
  have g4: "PStr ''2025-10-08 08:00:00''
      = (if truthy (dict_get truck_job_variables ''checkIn'')
         then dict_get truck_job_variables ''checkIn'' else PStr (strftime eight_oclock))"
    by (simp add: dict_get_def truck_job_variables_def truthy_def strftime_eight)
  have w: "calls port_checked_out = []" "store_up port_checked_out"
      "cast_timestamp port_checked_out (PStr ''2025-10-08 10:00:00'') = Some ten_oclock"
      "map t_check_out (transport_mean port_checked_out) = [Some ten_oclock, None]"
      "map t_check_in (transport_mean port_checked_out) = [Some eight_oclock, None]"
      "map t_transportation_id (transport_mean port_checked_out) = [''truck101'', ''ship9109'']"
    by (simp_all add: port_checked_out_def port_def cast_timestamp_def read_timestamp_def)
  have m: "map (\<lambda>t. if store_up port_checked_out
                        \<and> cast_timestamp port_checked_out (PStr ''2025-10-08 10:00:00'') \<noteq> None
                        \<and> t_transportation_id t = ''truck101''
                     then cast_timestamp port_checked_out (PStr ''2025-10-08 10:00:00'')
                     else t_check_in t)
             (transport_mean port_checked_out) = [Some ten_oclock, None]"
    by (simp add: port_checked_out_def port_def cast_timestamp_def read_timestamp_def)
  show ?thesis
    using h1 h2 h3 w m
      truck_checkin_partial_update [OF h1 h2 h3 h4, of port_checked_out 1]
      truck_checkin_partial_update [OF g1 g2 h3 g4, of port_checked_out 1]
    by auto
qed

section \<open>What a result carries forward\<close>

lemma carried_refl: "carried F variables variables"
  by (simp add: carried_def)

lemma carried_field: "carried F variables m \<Longrightarrow> k \<in> F \<Longrightarrow> carried F variables (m(k \<mapsto> v))"
  by (auto simp: carried_def)

lemma carried_get: "carried F variables m \<Longrightarrow> carried F variables (m(k \<mapsto> dict_get variables k))"
  by (auto simp: carried_def dict_get_def)

lemma carried_get_default:
  "carried F variables m \<Longrightarrow> carried F variables (m(k \<mapsto> dict_get_default variables k d))"
  by (auto simp: carried_def dict_get_default_def)

lemma routing_present:
  "{''containerId'', ''transportationId'', ''operationType''}
     \<subseteq> dom (m(''containerId'' \<mapsto> a, ''transportationId'' \<mapsto> b, ''operationType'' \<mapsto> c))"
  by simp

lemma accepted:
  assumes "handler k now w job_key variables = (Inr result, w')" "name \<in> set (required k)"
  shows "truthy (dict_get variables name) \<and> dict_get variables name \<noteq> PStr ''N/A''"
proof (rule ccontr)
  assume "\<not> (truthy (dict_get variables name) \<and> dict_get variables name \<noteq> PStr ''N/A'')"
  then have "missing (dict_get variables name)"
    by (simp add: missing_def)
  then obtain field where
    "handler k now w job_key variables = (Inl (ValueError (MissingVariable field)), w)"
    using handler_rejects [OF assms(2)] by blast
  with assms(1) show False by simp
qed

lemma crane_loading_result:
  assumes "handle_crane_loading now w job_key variables = (Inr result, w')"
  shows "result = variables(
         ''craneLoadingStatus'' \<mapsto> PStr ''completed'',
         ''craneLoadingTimestamp'' \<mapsto> PStr (strftime now),
         ''craneOperator'' \<mapsto> PStr ''CRANE-OP-001'',
         ''containerId'' \<mapsto> dict_get variables ''containerId'',
         ''transportationId'' \<mapsto> dict_get variables ''transportationId'',
         ''operationType'' \<mapsto> dict_get_default variables ''operationType'' (PStr ''loading''))"
proof -
  let ?cid = "dict_get variables ''containerId''"
  let ?tid = "dict_get variables ''transportationId''"
  have v: "truthy ?cid \<and> ?cid \<noteq> PStr ''N/A''"
    using accepted [of Crane_loading now w job_key variables result w' "''containerId''"] assms
    by (simp add: handler_def required_def)
  have t: "truthy ?tid \<and> ?tid \<noteq> PStr ''N/A''"
    using accepted [of Crane_loading now w job_key variables result w' "''transportationId''"] assms
    by (simp add: handler_def required_def)
  obtain cd w1 where g: "get_container w ?cid = (cd, w1)"
    by (cases "get_container w ?cid")
  show ?thesis
    using assms v t g by (simp add: handle_crane_loading_def Let_def)
qed

lemma crane_loading_carries:
  assumes "handle_crane_loading now w job_key variables = (Inr result, w')"
  shows "carried (set (result_fields Crane_loading)) variables result
       \<and> {''containerId'', ''transportationId'', ''operationType''} \<subseteq> dom result"
proof -
  have r: "result = variables(
         ''craneLoadingStatus'' \<mapsto> PStr ''completed'',
         ''craneLoadingTimestamp'' \<mapsto> PStr (strftime now),
         ''craneOperator'' \<mapsto> PStr ''CRANE-OP-001'',
         ''containerId'' \<mapsto> dict_get variables ''containerId'',
         ''transportationId'' \<mapsto> dict_get variables ''transportationId'',
         ''operationType'' \<mapsto> dict_get_default variables ''operationType'' (PStr ''loading''))"
    using assms by (rule crane_loading_result)
  have "carried (set (result_fields Crane_loading)) variables result"
    unfolding r
    by (intro carried_get_default carried_get carried_field carried_refl)
       (simp_all add: result_fields_def)
  moreover have "{''containerId'', ''transportationId'', ''operationType''} \<subseteq> dom result"
    unfolding r by (rule routing_present)
  ultimately show ?thesis by simp
qed

lemma crane_unloading_result:
  assumes "handle_crane_unloading now w job_key variables = (Inr result, w')"
  shows "result = variables(
         ''craneUnloadingStatus'' \<mapsto> PStr ''completed'',
         ''craneUnloadingTimestamp'' \<mapsto> PStr (strftime now),
         ''craneOperator'' \<mapsto> PStr ''CRANE-OP-002'',
         ''unloadingZone'' \<mapsto> PStr ''ZONE-A1'',
         ''containerId'' \<mapsto> dict_get variables ''containerId'',
         ''transportationId'' \<mapsto> dict_get variables ''transportationId'',
         ''operationType'' \<mapsto> dict_get_default variables ''operationType'' (PStr ''unloading''))"
proof -
  let ?cid = "dict_get variables ''containerId''"
  let ?tid = "dict_get variables ''transportationId''"
  have v: "truthy ?cid \<and> ?cid \<noteq> PStr ''N/A''"
    using accepted [of Crane_unloading now w job_key variables result w' "''containerId''"] assms
    by (simp add: handler_def required_def)
  have t: "truthy ?tid \<and> ?tid \<noteq> PStr ''N/A''"
    using accepted [of Crane_unloading now w job_key variables result w' "''transportationId''"] assms
    by (simp add: handler_def required_def)
  obtain cd w1 where g: "get_container w ?cid = (cd, w1)"
    by (cases "get_container w ?cid")
  show ?thesis
    using assms v t g by (simp add: handle_crane_unloading_def Let_def)
qed

lemma crane_unloading_carries:
  assumes "handle_crane_unloading now w job_key variables = (Inr result, w')"
  shows "carried (set (result_fields Crane_unloading)) variables result
       \<and> {''containerId'', ''transportationId'', ''operationType''} \<subseteq> dom result"
proof -
  have r: "result = variables(
         ''craneUnloadingStatus'' \<mapsto> PStr ''completed'',
         ''craneUnloadingTimestamp'' \<mapsto> PStr (strftime now),
         ''craneOperator'' \<mapsto> PStr ''CRANE-OP-002'',
         ''unloadingZone'' \<mapsto> PStr ''ZONE-A1'',
         ''containerId'' \<mapsto> dict_get variables ''containerId'',
         ''transportationId'' \<mapsto> dict_get variables ''transportationId'',
         ''operationType'' \<mapsto> dict_get_default variables ''operationType'' (PStr ''unloading''))"
    using assms by (rule crane_unloading_result)
  have "carried (set (result_fields Crane_unloading)) variables result"
    unfolding r
    by (intro carried_get_default carried_get carried_field carried_refl)
       (simp_all add: result_fields_def)
  moreover have "{''containerId'', ''transportationId'', ''operationType''} \<subseteq> dom result"
    unfolding r by (rule routing_present)
  ultimately show ?thesis by simp
qed

lemma weighing_result:
  assumes "handle_weighing now w job_key variables = (Inr result, w')"
  obtains weight where "result = variables(
         ''weighingStatus'' \<mapsto> PStr ''completed'',
         ''weighingTimestamp'' \<mapsto> PStr (strftime now),
         ''weight'' \<mapsto> PInt weight,
         ''weightUnit'' \<mapsto> PStr ''kg'',
         ''weightStatus'' \<mapsto> PStr (if weight \<le> 30480 then ''OK'' else ''OVERWEIGHT''),
         ''scaleId'' \<mapsto> PStr ''SCALE-001'',
         ''weighingOperator'' \<mapsto> PStr ''WEIGH-OP-001'',
         ''containerId'' \<mapsto> dict_get variables ''containerId'',
         ''transportationId'' \<mapsto> dict_get variables ''transportationId'',
         ''operationType'' \<mapsto> dict_get_default variables ''operationType'' (PStr ''unknown''))"
proof -
  let ?cid = "dict_get variables ''containerId''"
  let ?tid = "dict_get variables ''transportationId''"
  have v: "truthy ?cid \<and> ?cid \<noteq> PStr ''N/A''"
    using accepted [of Weighing now w job_key variables result w' "''containerId''"] assms
    by (simp add: handler_def required_def)
  obtain cd w1 where g: "get_container w ?cid = (cd, w1)"
    by (cases "get_container w ?cid")
  obtain d where d: "cd = Some d"
    using assms v g by (cases cd) (simp_all add: handle_weighing_def Let_def)
  obtain weight where wt: "cd_weight d = Some weight"
    using assms v g d by (cases "cd_weight d") (simp_all add: handle_weighing_def Let_def)
  have "result = variables(
         ''weighingStatus'' \<mapsto> PStr ''completed'',
         ''weighingTimestamp'' \<mapsto> PStr (strftime now),
         ''weight'' \<mapsto> PInt weight,
         ''weightUnit'' \<mapsto> PStr ''kg'',
         ''weightStatus'' \<mapsto> PStr (if weight \<le> 30480 then ''OK'' else ''OVERWEIGHT''),
         ''scaleId'' \<mapsto> PStr ''SCALE-001'',
         ''weighingOperator'' \<mapsto> PStr ''WEIGH-OP-001'',
         ''containerId'' \<mapsto> dict_get variables ''containerId'',
         ''transportationId'' \<mapsto> dict_get variables ''transportationId'',
         ''operationType'' \<mapsto> dict_get_default variables ''operationType'' (PStr ''unknown''))"
    using assms v g d wt by (simp add: handle_weighing_def Let_def)
  then show thesis by (rule that)
qed

lemma weighing_carries:
  assumes "handle_weighing now w job_key variables = (Inr result, w')"
  shows "carried (set (result_fields Weighing)) variables result
       \<and> {''containerId'', ''transportationId'', ''operationType''} \<subseteq> dom result"
proof -
  obtain weight where r: "result = variables(
         ''weighingStatus'' \<mapsto> PStr ''completed'',
         ''weighingTimestamp'' \<mapsto> PStr (strftime now),
         ''weight'' \<mapsto> PInt weight,
         ''weightUnit'' \<mapsto> PStr ''kg'',
         ''weightStatus'' \<mapsto> PStr (if weight \<le> 30480 then ''OK'' else ''OVERWEIGHT''),
         ''scaleId'' \<mapsto> PStr ''SCALE-001'',
         ''weighingOperator'' \<mapsto> PStr ''WEIGH-OP-001'',
         ''containerId'' \<mapsto> dict_get variables ''containerId'',
         ''transportationId'' \<mapsto> dict_get variables ''transportationId'',
         ''operationType'' \<mapsto> dict_get_default variables ''operationType'' (PStr ''unknown''))"
    using assms by (rule weighing_result)
  have "carried (set (result_fields Weighing)) variables result"
    unfolding r
    by (intro carried_get_default carried_get carried_field carried_refl)
       (simp_all add: result_fields_def)
  moreover have "{''containerId'', ''transportationId'', ''operationType''} \<subseteq> dom result"
    unfolding r by (rule routing_present)
  ultimately show ?thesis by simp
qed

lemma storage_result:
  assumes "handle_storage now w job_key variables = (Inr result, w')"
  obtains storage_id where "result = variables(
         ''storageStatus'' \<mapsto> PStr ''complete'',
         ''storageTimestamp'' \<mapsto> PStr (strftime now),
         ''storageOperator'' \<mapsto> PStr ''STORAGE-OP-001'',
         ''storageId'' \<mapsto> storage_id,
         ''containerId'' \<mapsto> dict_get variables ''containerId'',
         ''transportationId'' \<mapsto> dict_get variables ''transportationId'',
         ''operationType'' \<mapsto> dict_get_default variables ''operationType'' (PStr ''unknown''))"
proof -
  let ?cid = "dict_get variables ''containerId''"
  let ?tid = "dict_get variables ''transportationId''"
  have v: "truthy ?cid \<and> ?cid \<noteq> PStr ''N/A''"
    using accepted [of Storage now w job_key variables result w' "''containerId''"] assms
    by (simp add: handler_def required_def)
  obtain cd w1 where g: "get_container w ?cid = (cd, w1)"
    by (cases "get_container w ?cid")
  obtain d where d: "cd = Some d"
    using assms v g by (cases cd) (simp_all add: handle_storage_def Let_def)
  obtain success w2 where u: "update_storage_status w1 ?cid ''complete'' = (success, w2)"
    by (cases "update_storage_status w1 ?cid ''complete''")
  have "result = variables(
         ''storageStatus'' \<mapsto> PStr ''complete'',
         ''storageTimestamp'' \<mapsto> PStr (strftime now),
         ''storageOperator'' \<mapsto> PStr ''STORAGE-OP-001'',
         ''storageId'' \<mapsto> opt_int (cd_storage_id d),
         ''containerId'' \<mapsto> dict_get variables ''containerId'',
         ''transportationId'' \<mapsto> dict_get variables ''transportationId'',
         ''operationType'' \<mapsto> dict_get_default variables ''operationType'' (PStr ''unknown''))"
    using assms v g d u by (simp add: handle_storage_def Let_def)
  then show thesis by (rule that)
qed

lemma storage_carries:
  assumes "handle_storage now w job_key variables = (Inr result, w')"
  shows "carried (set (result_fields Storage)) variables result
       \<and> {''containerId'', ''transportationId'', ''operationType''} \<subseteq> dom result"
proof -
  obtain storage_id where r: "result = variables(
         ''storageStatus'' \<mapsto> PStr ''complete'',
         ''storageTimestamp'' \<mapsto> PStr (strftime now),
         ''storageOperator'' \<mapsto> PStr ''STORAGE-OP-001'',
         ''storageId'' \<mapsto> storage_id,
         ''containerId'' \<mapsto> dict_get variables ''containerId'',
         ''transportationId'' \<mapsto> dict_get variables ''transportationId'',
         ''operationType'' \<mapsto> dict_get_default variables ''operationType'' (PStr ''unknown''))"
    using assms by (rule storage_result)
  have "carried (set (result_fields Storage)) variables result"
    unfolding r
    by (intro carried_get_default carried_get carried_field carried_refl)
       (simp_all add: result_fields_def)
  moreover have "{''containerId'', ''transportationId'', ''operationType''} \<subseteq> dom result"
    unfolding r by (rule routing_present)
  ultimately show ?thesis by simp
qed

lemma truck_checkin_result:
  assumes "handle_truck_checkin now w job_key variables = (Inr result, w')"
  shows "result = variables(
         ''checkIn'' \<mapsto> (if \<not> truthy (dict_get variables ''checkIn'') then PStr (strftime now) else dict_get variables ''checkIn''),
         ''truckCheckInStatus'' \<mapsto> PStr ''completed'',
         ''truckCheckInOperator'' \<mapsto> PStr ''GATE-OP-001'',
         ''containerId'' \<mapsto> dict_get variables ''containerId'',
         ''transportationId'' \<mapsto> dict_get variables ''transportationId'',
         ''operationType'' \<mapsto> dict_get_default variables ''operationType'' (PStr ''unknown''))"
proof -
  let ?cid = "dict_get variables ''containerId''"
  let ?tid = "dict_get variables ''transportationId''"
  have v: "truthy ?cid \<and> ?cid \<noteq> PStr ''N/A''"
    using accepted [of Truck_checkin now w job_key variables result w' "''containerId''"] assms
    by (simp add: handler_def required_def)
  have t: "truthy ?tid \<and> ?tid \<noteq> PStr ''N/A''"
    using accepted [of Truck_checkin now w job_key variables result w' "''transportationId''"] assms
    by (simp add: handler_def required_def)
  have s: "startswith ?tid ''truck'' = Inr True"
  proof (cases "startswith ?tid ''truck''")
    case (Inl e)
    then show ?thesis using assms v t by (simp add: handle_truck_checkin_def Let_def)
  next
    case (Inr b)
    then show ?thesis using assms v t by (cases b) (simp_all add: handle_truck_checkin_def Let_def)
  qed
  obtain success w1 where u: "update_transport_timestamps w ?tid (if \<not> truthy (dict_get variables ''checkIn'') then PStr (strftime now) else dict_get variables ''checkIn'') PNone = (success, w1)"
    by (cases "update_transport_timestamps w ?tid (if \<not> truthy (dict_get variables ''checkIn'') then PStr (strftime now) else dict_get variables ''checkIn'') PNone")
  show ?thesis
    using assms v t s u by (simp add: handle_truck_checkin_def Let_def)
qed

lemma truck_checkin_carries:
  assumes "handle_truck_checkin now w job_key variables = (Inr result, w')"
  shows "carried (set (result_fields Truck_checkin)) variables result
       \<and> {''containerId'', ''transportationId'', ''operationType''} \<subseteq> dom result"
proof -
  have r: "result = variables(
         ''checkIn'' \<mapsto> (if \<not> truthy (dict_get variables ''checkIn'') then PStr (strftime now) else dict_get variables ''checkIn''),
         ''truckCheckInStatus'' \<mapsto> PStr ''completed'',
         ''truckCheckInOperator'' \<mapsto> PStr ''GATE-OP-001'',
         ''containerId'' \<mapsto> dict_get variables ''containerId'',
         ''transportationId'' \<mapsto> dict_get variables ''transportationId'',
         ''operationType'' \<mapsto> dict_get_default variables ''operationType'' (PStr ''unknown''))"
    using assms by (rule truck_checkin_result)
  have "carried (set (result_fields Truck_checkin)) variables result"
    unfolding r
    by (intro carried_get_default carried_get carried_field carried_refl)
       (simp_all add: result_fields_def)
  moreover have "{''containerId'', ''transportationId'', ''operationType''} \<subseteq> dom result"
    unfolding r by (rule routing_present)
  ultimately show ?thesis by simp
qed

lemma truck_checkout_result:
  assumes "handle_truck_checkout now w job_key variables = (Inr result, w')"
  shows "result = variables(
         ''checkOut'' \<mapsto> (if \<not> truthy (dict_get variables ''checkOut'') then PStr (strftime now) else dict_get variables ''checkOut''),
         ''truckCheckOutStatus'' \<mapsto> PStr ''completed'',
         ''truckCheckOutOperator'' \<mapsto> PStr ''GATE-OP-002'',
         ''containerId'' \<mapsto> dict_get variables ''containerId'',
         ''transportationId'' \<mapsto> dict_get variables ''transportationId'',
         ''operationType'' \<mapsto> dict_get_default variables ''operationType'' (PStr ''unknown''))"
proof -
  let ?cid = "dict_get variables ''containerId''"
  let ?tid = "dict_get variables ''transportationId''"
  have v: "truthy ?cid \<and> ?cid \<noteq> PStr ''N/A''"
    using accepted [of Truck_checkout now w job_key variables result w' "''containerId''"] assms
    by (simp add: handler_def required_def)
  have t: "truthy ?tid \<and> ?tid \<noteq> PStr ''N/A''"
    using accepted [of Truck_checkout now w job_key variables result w' "''transportationId''"] assms
    by (simp add: handler_def required_def)
  have s: "startswith ?tid ''truck'' = Inr True"
  proof (cases "startswith ?tid ''truck''")
    case (Inl e)
    then show ?thesis using assms v t by (simp add: handle_truck_checkout_def Let_def)
  next
    case (Inr b)
    then show ?thesis using assms v t by (cases b) (simp_all add: handle_truck_checkout_def Let_def)
  qed
  obtain success w1 where u: "update_transport_timestamps w ?tid PNone (if \<not> truthy (dict_get variables ''checkOut'') then PStr (strftime now) else dict_get variables ''checkOut'') = (success, w1)"
    by (cases "update_transport_timestamps w ?tid PNone (if \<not> truthy (dict_get variables ''checkOut'') then PStr (strftime now) else dict_get variables ''checkOut'')")
  show ?thesis
    using assms v t s u by (simp add: handle_truck_checkout_def Let_def)
qed

lemma truck_checkout_carries:
  assumes "handle_truck_checkout now w job_key variables = (Inr result, w')"
  shows "carried (set (result_fields Truck_checkout)) variables result
       \<and> {''containerId'', ''transportationId'', ''operationType''} \<subseteq> dom result"
proof -
  have r: "result = variables(
         ''checkOut'' \<mapsto> (if \<not> truthy (dict_get variables ''checkOut'') then PStr (strftime now) else dict_get variables ''checkOut''),
         ''truckCheckOutStatus'' \<mapsto> PStr ''completed'',
         ''truckCheckOutOperator'' \<mapsto> PStr ''GATE-OP-002'',
         ''containerId'' \<mapsto> dict_get variables ''containerId'',
         ''transportationId'' \<mapsto> dict_get variables ''transportationId'',
         ''operationType'' \<mapsto> dict_get_default variables ''operationType'' (PStr ''unknown''))"
    using assms by (rule truck_checkout_result)
  have "carried (set (result_fields Truck_checkout)) variables result"
    unfolding r
    by (intro carried_get_default carried_get carried_field carried_refl)
       (simp_all add: result_fields_def)
  moreover have "{''containerId'', ''transportationId'', ''operationType''} \<subseteq> dom result"
    unfolding r by (rule routing_present)
  ultimately show ?thesis by simp
qed

lemma crane_loading_returns:
  assumes "\<not> missing (dict_get variables ''containerId'')"
    and "\<not> missing (dict_get variables ''transportationId'')"
  shows "\<exists>result w'. handle_crane_loading now w job_key variables = (Inr result, w')"
proof -
  obtain cd w1 where "get_container w (dict_get variables ''containerId'') = (cd, w1)"
    by (cases "get_container w (dict_get variables ''containerId'')")
  then show ?thesis
    using assms by (simp add: handle_crane_loading_def Let_def missing_def)
qed

lemma crane_unloading_returns:
  assumes "\<not> missing (dict_get variables ''containerId'')"
    and "\<not> missing (dict_get variables ''transportationId'')"
  shows "\<exists>result w'. handle_crane_unloading now w job_key variables = (Inr result, w')"
proof -
  obtain cd w1 where "get_container w (dict_get variables ''containerId'') = (cd, w1)"
    by (cases "get_container w (dict_get variables ''containerId'')")
  then show ?thesis
    using assms by (simp add: handle_crane_unloading_def Let_def missing_def)
qed

lemma container_row_of_string:
  assumes "container_row_of w v = Some c"
  obtains cid where "v = PStr cid" "find (\<lambda>c. c_container_id c = cid) (container w) = Some c"
  using assms by (cases v) (simp_all add: container_row_of_def)

lemma weighing_returns:
  assumes "\<not> missing (dict_get variables ''containerId'')" and "store_up w"
    and "container_row_of w (dict_get variables ''containerId'') = Some c"
    and "c_weight c = Some weight"
  shows "\<exists>result w'. handle_weighing now w job_key variables = (Inr result, w')"
proof -
  obtain cid where cid: "dict_get variables ''containerId'' = PStr cid"
      "find (\<lambda>c. c_container_id c = cid) (container w) = Some c"
    using assms(3) by (rule container_row_of_string)
  obtain s t where g: "get_container w (PStr cid)
       = (Some (joined_record c s t), log_call (C_get_container (PStr cid)) w)"
    using get_container_present [OF assms(2) cid(2)] by blast
  have wt: "cd_weight (joined_record c s t) = Some weight"
    using assms(4) by (simp add: joined_record_def)
  show ?thesis
    using assms(1) cid(1) g wt by (simp add: handle_weighing_def Let_def missing_def)
qed

lemma storage_returns:
  assumes "\<not> missing (dict_get variables ''containerId'')" and "store_up w"
    and "container_row_of w (dict_get variables ''containerId'') = Some c"
  shows "\<exists>result w'. handle_storage now w job_key variables = (Inr result, w')"
proof -
  obtain cid where cid: "dict_get variables ''containerId'' = PStr cid"
      "find (\<lambda>c. c_container_id c = cid) (container w) = Some c"
    using assms(3) by (rule container_row_of_string)
  obtain s t where g: "get_container w (PStr cid)
       = (Some (joined_record c s t), log_call (C_get_container (PStr cid)) w)"
    using get_container_present [OF assms(2) cid(2)] by blast
  obtain success w2 where u:
    "update_storage_status (log_call (C_get_container (PStr cid)) w) (PStr cid) ''complete''
       = (success, w2)"
    by (cases "update_storage_status (log_call (C_get_container (PStr cid)) w) (PStr cid) ''complete''")
  show ?thesis
    using assms(1) cid(1) g u by (simp add: handle_storage_def Let_def missing_def)
qed

lemma truck_checkin_returns:
  assumes "\<not> missing (dict_get variables ''containerId'')"
    and "\<not> missing (dict_get variables ''transportationId'')"
    and "startswith (dict_get variables ''transportationId'') ''truck'' = Inr True"
  shows "\<exists>result w'. handle_truck_checkin now w job_key variables = (Inr result, w')"
proof -
  let ?v = "if \<not> truthy (dict_get variables ''checkIn'') then PStr (strftime now)
            else dict_get variables ''checkIn''"
  obtain success w1 where
    "update_transport_timestamps w (dict_get variables ''transportationId'') ?v PNone = (success, w1)"
    by (cases "update_transport_timestamps w (dict_get variables ''transportationId'') ?v PNone")
  then show ?thesis
    using assms by (simp add: handle_truck_checkin_def Let_def missing_def)
qed

lemma truck_checkout_returns:
  assumes "\<not> missing (dict_get variables ''containerId'')"
    and "\<not> missing (dict_get variables ''transportationId'')"
    and "startswith (dict_get variables ''transportationId'') ''truck'' = Inr True"
  shows "\<exists>result w'. handle_truck_checkout now w job_key variables = (Inr result, w')"
proof -
  let ?v = "if \<not> truthy (dict_get variables ''checkOut'') then PStr (strftime now)
            else dict_get variables ''checkOut''"
  obtain success w1 where
    "update_transport_timestamps w (dict_get variables ''transportationId'') PNone ?v = (success, w1)"
    by (cases "update_transport_timestamps w (dict_get variables ''transportationId'') PNone ?v")
  then show ?thesis
    using assms by (simp add: handle_truck_checkout_def Let_def missing_def)
qed

lemma handler_returns:
  assumes "preconditions k w variables"
  shows "\<exists>result w'. handler k now w job_key variables = (Inr result, w')"
proof (cases k)
  case Crane_loading
  then show ?thesis
    using assms crane_loading_returns [of variables now w job_key]
    by (simp add: preconditions_def required_def handler_def)
next
  case Crane_unloading
  then show ?thesis
    using assms crane_unloading_returns [of variables now w job_key]
    by (simp add: preconditions_def required_def handler_def)
next
  case Weighing
  then obtain c weight where
    "container_row_of w (dict_get variables ''containerId'') = Some c" "c_weight c = Some weight"
    using assms by (auto simp: preconditions_def split: option.splits)
  then show ?thesis
    using Weighing assms weighing_returns [of variables w c weight now job_key]
    by (simp add: preconditions_def required_def handler_def)
next
  case Storage
  then obtain c where "container_row_of w (dict_get variables ''containerId'') = Some c"
    using assms by (auto simp: preconditions_def)
  then show ?thesis
    using Storage assms storage_returns [of variables w c now job_key]
    by (simp add: preconditions_def required_def handler_def)
next
  case Truck_checkin
  then show ?thesis
    using assms truck_checkin_returns [of variables now w job_key]
    by (simp add: preconditions_def required_def handler_def)
next
  case Truck_checkout
  then show ?thesis
    using assms truck_checkout_returns [of variables now w job_key]
    by (simp add: preconditions_def required_def handler_def)
qed

lemma handler_carries:
  assumes "handler k now w job_key variables = (Inr result, w')"
  shows "carried (set (result_fields k)) variables result
       \<and> {''containerId'', ''transportationId'', ''operationType''} \<subseteq> dom result"
proof (cases k)
  case Crane_loading
  then show ?thesis using assms crane_loading_carries by (simp add: handler_def)
next
  case Crane_unloading
  then show ?thesis using assms crane_unloading_carries by (simp add: handler_def)
next
  case Weighing
  then show ?thesis using assms weighing_carries by (simp add: handler_def)
next
  case Storage
  then show ?thesis using assms storage_carries by (simp add: handler_def)
next
  case Truck_checkin
  then show ?thesis using assms truck_checkin_carries by (simp add: handler_def)
next
  case Truck_checkout
  then show ?thesis using assms truck_checkout_carries by (simp add: handler_def)
qed

lemma routing_not_result_field:
  "''containerId'' \<notin> set (result_fields k)"
  "''transportationId'' \<notin> set (result_fields k)"
  "''operationType'' \<notin> set (result_fields k)"
  by (cases k, simp_all add: result_fields_def)+

lemma job_variables_routing:
  "truck_job_variables ''containerId'' = Some (PStr ''C1001'')"
  "truck_job_variables ''transportationId'' = Some (PStr ''truck101'')"
  "truck_job_variables ''operationType'' = Some (PStr ''loading'')"
  "ship_job_variables ''containerId'' = Some (PStr ''C1002'')"
  "ship_job_variables ''transportationId'' = Some (PStr ''ship9109'')"
  "ship_job_variables ''operationType'' = Some (PStr ''unloading'')"
  by (simp_all add: truck_job_variables_def ship_job_variables_def)

lemma port_preconditions:
  "preconditions Crane_loading port truck_job_variables"
  "preconditions Crane_unloading port ship_job_variables"
  "preconditions Weighing port ship_job_variables"
  "preconditions Storage port truck_job_variables"
  "preconditions Truck_checkin port truck_job_variables"
  "preconditions Truck_checkout port truck_job_variables"
  by (simp_all add: preconditions_def required_def missing_def dict_get_def truthy_def
        truck_job_variables_def ship_job_variables_def container_row_of_def port_def
        startswith_def)

lemma kept_value:
  assumes "\<forall>name\<in>dom variables. name \<notin> F \<longrightarrow> result name = variables name"
    and "variables name = Some v" and "name \<notin> F"
  shows "result name = Some v"
proof -
  have "name \<in> dom variables"
    using assms(2) by (rule domI)
  with assms show ?thesis by simp
qed

text \<open>
  C8: a handler returns a result for every input that satisfies its preconditions (the
  required variables, and what \<open>preconditions\<close> adds for its kind); and whenever a handler
  returns a result, every key of the input is a key of the result, \<open>containerId\<close>,
  \<open>transportationId\<close> and \<open>operationType\<close> are keys of the result, and every input key
  outside the handler's own result fields keeps its input value.
\<close>

theorem handler_result_carries_input:
  "(preconditions k w variables
      \<longrightarrow> (\<exists>result w'. handler k now w job_key variables = (Inr result, w')))
   \<and> (\<forall>result w'. handler k now w job_key variables = (Inr result, w')
         \<longrightarrow> dom variables \<subseteq> dom result
           \<and> {''containerId'', ''transportationId'', ''operationType''} \<subseteq> dom result
           \<and> (\<forall>name\<in>dom variables.
                 name \<notin> set (result_fields k) \<longrightarrow> result name = variables name))"
proof (intro conjI impI allI)
  assume "preconditions k w variables"
  then show "\<exists>result w'. handler k now w job_key variables = (Inr result, w')"
    by (rule handler_returns)
next
  fix result w'
  assume r: "handler k now w job_key variables = (Inr result, w')"
  from handler_carries [OF r]
  show "dom variables \<subseteq> dom result"
    and "{''containerId'', ''transportationId'', ''operationType''} \<subseteq> dom result"
    and "\<forall>name\<in>dom variables. name \<notin> set (result_fields k) \<longrightarrow> result name = variables name"
    by (simp_all add: carried_def)
qed

theorem handler_result_carries_input_witness:
  "preconditions Crane_loading port truck_job_variables
   \<and> (\<exists>result w'. handler Crane_loading eight_oclock port 1 truck_job_variables = (Inr result, w')
         \<and> result ''containerId'' = Some (PStr ''C1001'')
         \<and> result ''transportationId'' = Some (PStr ''truck101'')
         \<and> result ''operationType'' = Some (PStr ''loading''))
   \<and> preconditions Crane_unloading port ship_job_variables
   \<and> (\<exists>result w'. handler Crane_unloading eight_oclock port 1 ship_job_variables = (Inr result, w')
         \<and> result ''containerId'' = Some (PStr ''C1002'')
         \<and> result ''transportationId'' = Some (PStr ''ship9109'')
         \<and> result ''operationType'' = Some (PStr ''unloading''))
   \<and> preconditions Weighing port ship_job_variables
   \<and> (\<exists>result w'. handler Weighing eight_oclock port 1 ship_job_variables = (Inr result, w')
         \<and> result ''containerId'' = Some (PStr ''C1002'')
         \<and> result ''transportationId'' = Some (PStr ''ship9109'')
         \<and> result ''operationType'' = Some (PStr ''unloading''))
   \<and> preconditions Storage port truck_job_variables
   \<and> (\<exists>result w'. handler Storage eight_oclock port 1 truck_job_variables = (Inr result, w')
         \<and> result ''containerId'' = Some (PStr ''C1001'')
         \<and> result ''transportationId'' = Some (PStr ''truck101'')
         \<and> result ''operationType'' = Some (PStr ''loading''))
   \<and> preconditions Truck_checkin port truck_job_variables
   \<and> (\<exists>result w'. handler Truck_checkin eight_oclock port 1 truck_job_variables = (Inr result, w')
         \<and> result ''containerId'' = Some (PStr ''C1001'')
         \<and> result ''transportationId'' = Some (PStr ''truck101'')
         \<and> result ''operationType'' = Some (PStr ''loading''))
   \<and> preconditions Truck_checkout port truck_job_variables
   \<and> (\<exists>result w'. handler Truck_checkout eight_oclock port 1 truck_job_variables = (Inr result, w')
         \<and> result ''containerId'' = Some (PStr ''C1001'')
         \<and> result ''transportationId'' = Some (PStr ''truck101'')
         \<and> result ''operationType'' = Some (PStr ''loading''))"
proof -
  have a: "\<exists>result w'. handler Crane_loading eight_oclock port 1 truck_job_variables = (Inr result, w')
         \<and> result ''containerId'' = Some (PStr ''C1001'')
         \<and> result ''transportationId'' = Some (PStr ''truck101'')
         \<and> result ''operationType'' = Some (PStr ''loading'')"
  proof -
    note t = handler_result_carries_input [of Crane_loading port truck_job_variables eight_oclock 1]
    obtain result w' where r: "handler Crane_loading eight_oclock port 1 truck_job_variables = (Inr result, w')"
      using t [THEN conjunct1, THEN mp, OF port_preconditions(1)] by blast
    have p: "\<forall>name\<in>dom truck_job_variables.
        name \<notin> set (result_fields Crane_loading) \<longrightarrow> result name = truck_job_variables name"
      by (rule t [THEN conjunct2, THEN spec, THEN spec, THEN mp, OF r, THEN conjunct2,
                  THEN conjunct2])
    show ?thesis
      using r kept_value [OF p job_variables_routing(1) routing_not_result_field(1)]
        kept_value [OF p job_variables_routing(2) routing_not_result_field(2)]
        kept_value [OF p job_variables_routing(3) routing_not_result_field(3)]
      by blast
  qed
  have b: "\<exists>result w'. handler Crane_unloading eight_oclock port 1 ship_job_variables = (Inr result, w')
         \<and> result ''containerId'' = Some (PStr ''C1002'')
         \<and> result ''transportationId'' = Some (PStr ''ship9109'')
         \<and> result ''operationType'' = Some (PStr ''unloading'')"
  proof -
    note t = handler_result_carries_input [of Crane_unloading port ship_job_variables eight_oclock 1]
    obtain result w' where r: "handler Crane_unloading eight_oclock port 1 ship_job_variables = (Inr result, w')"
      using t [THEN conjunct1, THEN mp, OF port_preconditions(2)] by blast
    have p: "\<forall>name\<in>dom ship_job_variables.
        name \<notin> set (result_fields Crane_unloading) \<longrightarrow> result name = ship_job_variables name"
      by (rule t [THEN conjunct2, THEN spec, THEN spec, THEN mp, OF r, THEN conjunct2,
                  THEN conjunct2])
    show ?thesis
      using r kept_value [OF p job_variables_routing(4) routing_not_result_field(1)]
        kept_value [OF p job_variables_routing(5) routing_not_result_field(2)]
        kept_value [OF p job_variables_routing(6) routing_not_result_field(3)]
      by blast
  qed
  have c: "\<exists>result w'. handler Weighing eight_oclock port 1 ship_job_variables = (Inr result, w')
         \<and> result ''containerId'' = Some (PStr ''C1002'')
         \<and> result ''transportationId'' = Some (PStr ''ship9109'')
         \<and> result ''operationType'' = Some (PStr ''unloading'')"
  proof -
    note t = handler_result_carries_input [of Weighing port ship_job_variables eight_oclock 1]
    obtain result w' where r: "handler Weighing eight_oclock port 1 ship_job_variables = (Inr result, w')"
      using t [THEN conjunct1, THEN mp, OF port_preconditions(3)] by blast
    have p: "\<forall>name\<in>dom ship_job_variables.
        name \<notin> set (result_fields Weighing) \<longrightarrow> result name = ship_job_variables name"
      by (rule t [THEN conjunct2, THEN spec, THEN spec, THEN mp, OF r, THEN conjunct2,
                  THEN conjunct2])
    show ?thesis
      using r kept_value [OF p job_variables_routing(4) routing_not_result_field(1)]
        kept_value [OF p job_variables_routing(5) routing_not_result_field(2)]
        kept_value [OF p job_variables_routing(6) routing_not_result_field(3)]
      by blast
  qed
  have d: "\<exists>result w'. handler Storage eight_oclock port 1 truck_job_variables = (Inr result, w')
         \<and> result ''containerId'' = Some (PStr ''C1001'')
         \<and> result ''transportationId'' = Some (PStr ''truck101'')
         \<and> result ''operationType'' = Some (PStr ''loading'')"
  proof -
    note t = handler_result_carries_input [of Storage port truck_job_variables eight_oclock 1]
    obtain result w' where r: "handler Storage eight_oclock port 1 truck_job_variables = (Inr result, w')"
      using t [THEN conjunct1, THEN mp, OF port_preconditions(4)] by blast
    have p: "\<forall>name\<in>dom truck_job_variables.
        name \<notin> set (result_fields Storage) \<longrightarrow> result name = truck_job_variables name"
      by (rule t [THEN conjunct2, THEN spec, THEN spec, THEN mp, OF r, THEN conjunct2,
                  THEN conjunct2])
    show ?thesis
      using r kept_value [OF p job_variables_routing(1) routing_not_result_field(1)]
        kept_value [OF p job_variables_routing(2) routing_not_result_field(2)]
        kept_value [OF p job_variables_routing(3) routing_not_result_field(3)]
      by blast
  qed
  have e: "\<exists>result w'. handler Truck_checkin eight_oclock port 1 truck_job_variables = (Inr result, w')
         \<and> result ''containerId'' = Some (PStr ''C1001'')
         \<and> result ''transportationId'' = Some (PStr ''truck101'')
         \<and> result ''operationType'' = Some (PStr ''loading'')"
  proof -
    note t = handler_result_carries_input [of Truck_checkin port truck_job_variables eight_oclock 1]
    obtain result w' where r: "handler Truck_checkin eight_oclock port 1 truck_job_variables = (Inr result, w')"
      using t [THEN conjunct1, THEN mp, OF port_preconditions(5)] by blast
    have p: "\<forall>name\<in>dom truck_job_variables.
        name \<notin> set (result_fields Truck_checkin) \<longrightarrow> result name = truck_job_variables name"
      by (rule t [THEN conjunct2, THEN spec, THEN spec, THEN mp, OF r, THEN conjunct2,
                  THEN conjunct2])
    show ?thesis
      using r kept_value [OF p job_variables_routing(1) routing_not_result_field(1)]
        kept_value [OF p job_variables_routing(2) routing_not_result_field(2)]
        kept_value [OF p job_variables_routing(3) routing_not_result_field(3)]
      by blast
  qed
  have f: "\<exists>result w'. handler Truck_checkout eight_oclock port 1 truck_job_variables = (Inr result, w')
         \<and> result ''containerId'' = Some (PStr ''C1001'')
         \<and> result ''transportationId'' = Some (PStr ''truck101'')
         \<and> result ''operationType'' = Some (PStr ''loading'')"
  proof -
    note t = handler_result_carries_input [of Truck_checkout port truck_job_variables eight_oclock 1]
    obtain result w' where r: "handler Truck_checkout eight_oclock port 1 truck_job_variables = (Inr result, w')"
      using t [THEN conjunct1, THEN mp, OF port_preconditions(6)] by blast
    have p: "\<forall>name\<in>dom truck_job_variables.
        name \<notin> set (result_fields Truck_checkout) \<longrightarrow> result name = truck_job_variables name"
      by (rule t [THEN conjunct2, THEN spec, THEN spec, THEN mp, OF r, THEN conjunct2,
                  THEN conjunct2])
    show ?thesis
      using r kept_value [OF p job_variables_routing(1) routing_not_result_field(1)]
        kept_value [OF p job_variables_routing(2) routing_not_result_field(2)]
        kept_value [OF p job_variables_routing(3) routing_not_result_field(3)]
      by blast
  qed
  show ?thesis
    by (intro conjI a b c d e f port_preconditions)
qed

section \<open>Scenario reconstruction\<close>





lemma fetch_take_1:
  "fetch_workflow_scenarios w = take 1 (PortManagementSystem_fetch_workflow_scenarios w)"
  by (simp add: fetch_workflow_scenarios_def PortManagementSystem_fetch_workflow_scenarios_def
        split: sum.splits list.splits)


lemma build_scenario_no_error:
  "r_weight row \<noteq> None \<Longrightarrow> \<exists>r. build_scenario row = Inr r"
  by (cases "r_check_in row"; cases "r_check_out row")
     (auto simp: build_scenario_def Let_def py_float_def)

lemma scenarios_loop_all:
  "\<forall>row\<in>set rows. r_weight row \<noteq> None \<Longrightarrow>
   scenarios_loop rows acc
     = Inr (acc @ List.map_filter
                    (\<lambda>row. case build_scenario row of Inl e \<Rightarrow> None | Inr r \<Rightarrow> r) rows)"
proof (induction rows arbitrary: acc)
  case Nil
  then show ?case by (simp add: List.map_filter_simps)
next
  case (Cons row rows)
  obtain r where r: "build_scenario row = Inr r"
    using build_scenario_no_error [of row] Cons.prems by auto
  show ?case
    using Cons r by (cases r) (simp_all add: List.map_filter_simps)
qed

lemma PortManagementSystem_fetch_all:
  assumes "store_up w" "\<forall>row\<in>set (fetchall w). r_weight row \<noteq> None"
  shows "PortManagementSystem_fetch_workflow_scenarios w
           = List.map_filter (\<lambda>row. case build_scenario row of Inl e \<Rightarrow> None | Inr r \<Rightarrow> r)
               (fetchall w)"
    and "sorted (map (\<lambda>r. (r_transportation_id r, r_container_id r)) (fetchall w))"
  using assms
  by (simp_all add: PortManagementSystem_fetch_workflow_scenarios_def scenarios_loop_all
        fetchall_def)

lemma fetchall_port_checked_out:
  "fetchall port_checked_out =
     [\<lparr>r_container_id = ''C1002'', r_operation_type = Some ''unloading'', r_weight = Some 35000,
        r_transportation_id = ''ship9109'', r_check_in = None, r_check_out = None,
        r_storage_status = Some ''complete''\<rparr>,
      \<lparr>r_container_id = ''C1001'', r_operation_type = Some ''loading'', r_weight = Some 12000,
        r_transportation_id = ''truck101'', r_check_in = Some eight_oclock,
        r_check_out = Some ten_oclock, r_storage_status = Some ''incomplete''\<rparr>]"
  by (simp add: fetchall_def joined_rows_def port_checked_out_def port_def select_row_def)


lemma build_ship:
  "build_scenario \<lparr>r_container_id = ''C1002'', r_operation_type = Some ''unloading'',
        r_weight = Some 35000, r_transportation_id = ''ship9109'', r_check_in = None,
        r_check_out = None, r_storage_status = Some ''complete''\<rparr> = Inr (Some ship_scenario)"
  by (simp add: build_scenario_def Let_def py_float_def py_str_def opt_str_def ship_scenario_def)

lemma build_truck:
  "build_scenario \<lparr>r_container_id = ''C1001'', r_operation_type = Some ''loading'',
        r_weight = Some 12000, r_transportation_id = ''truck101'', r_check_in = Some eight_oclock,
        r_check_out = Some ten_oclock, r_storage_status = Some ''incomplete''\<rparr>
     = Inr (Some truck_scenario)"
  by (simp add: build_scenario_def Let_def py_float_def py_str_def opt_str_def truck_scenario_def
        strftime_eight strftime_ten)


lemma ports_up: "store_up port" "store_up port_checked_out"
  by (simp_all add: port_def port_checked_out_def)

lemma PortManagementSystem_fetch_port_checked_out:
  "PortManagementSystem_fetch_workflow_scenarios port_checked_out = [ship_scenario, truck_scenario]"
  by (simp add: PortManagementSystem_fetch_workflow_scenarios_def ports_up fetchall_port_checked_out
        build_ship build_truck)





text \<open>
  C1, at a store with two rows that pass the truck rule (the ship, and the truck with both
  timestamps): \<open>PortManagementSystem.fetch_workflow_scenarios\<close> of flow.py returns both
  scenarios, in the order of the query; \<open>fetch_workflow_scenarios\<close> of start_workflow.py
  returns the first one alone.
\<close>

theorem fetch_workflow_scenarios_returns_first_only:
  "PortManagementSystem_fetch_workflow_scenarios port_checked_out = [ship_scenario, truck_scenario]
   \<and> fetch_workflow_scenarios port_checked_out = [ship_scenario]"
  by (simp add: fetch_take_1 PortManagementSystem_fetch_port_checked_out)




end
